theory Spec2Isabelle
  imports Complex_Main "HOL-Library.Multiset"
begin

section \<open>JavaScript values\<close>

text \<open>
  The three modules verified here (the classification client, the routing engine and the
  queue worker) are JavaScript. They read data that has been parsed from JSON (the answer
  of the classification service, database rows, rule conditions) and they lean on the
  language's dynamic typing: truthiness in \<^verbatim>\<open>a || b\<close> and \<^verbatim>\<open>if (!x)\<close>, implicit
  conversion to numbers in \<^verbatim>\<open>Math.min\<close> and in \<^verbatim>\<open><\<close>, strict equality in
  \<^verbatim>\<open>includes\<close>. This section models the values and exactly those operations.

  Numbers are the reals extended by the two infinities and NaN. Rounding to the nearest
  double is not modelled: a finite number is the real it denotes.
\<close>

datatype jsnum = NaN | NInf | Fin real | PInf

datatype jsval =
    Undefined
  | Null
  | Bool bool
  | Num jsnum
  | Str string
  | Arr "jsval list"
  | Obj "(string \<times> jsval) list"

datatype js_error = TypeError | ReferenceError | ServiceError

text \<open>Truthiness (the abstract operation ToBoolean).\<close>

fun truthy :: "jsval \<Rightarrow> bool" where
  "truthy Undefined = False"
| "truthy Null = False"
| "truthy (Bool b) = b"
| "truthy (Num n) = (n \<noteq> NaN \<and> n \<noteq> Fin 0)"
| "truthy (Str s) = (s \<noteq> [])"
| "truthy (Arr xs) = True"
| "truthy (Obj kvs) = True"

text \<open>\<^verbatim>\<open>a || b\<close>: the left operand when it is truthy, the right one otherwise.\<close>

definition js_or :: "jsval \<Rightarrow> jsval \<Rightarrow> jsval" where
  "js_or a b = (if truthy a then a else b)"

text \<open>
  Property access \<^verbatim>\<open>v.k\<close>. On \<^verbatim>\<open>null\<close> and \<^verbatim>\<open>undefined\<close> it throws a TypeError. An
  object yields its own property or \<^verbatim>\<open>undefined\<close>; the keys of an object are taken to be
  distinct, as \<^verbatim>\<open>JSON.parse\<close> produces them. Every other value is a primitive or an
  array, which has none of the property names read by the code below
  (\<^verbatim>\<open>category\<close>, \<^verbatim>\<open>label\<close>, \<^verbatim>\<open>$gt\<close>, ...), so the access yields \<^verbatim>\<open>undefined\<close>.
  Properties inherited from \<^verbatim>\<open>Object.prototype\<close> are outside this function.
\<close>

fun get_prop :: "jsval \<Rightarrow> string \<Rightarrow> js_error + jsval" where
  "get_prop Undefined k = Inl TypeError"
| "get_prop Null k = Inl TypeError"
| "get_prop (Obj kvs) k = Inr (case map_of kvs k of Some v \<Rightarrow> v | None \<Rightarrow> Undefined)"
| "get_prop v k = Inr Undefined"

text \<open>Optional chaining \<^verbatim>\<open>v?.k\<close>: \<^verbatim>\<open>undefined\<close> when \<open>v\<close> is \<^verbatim>\<open>null\<close> or \<^verbatim>\<open>undefined\<close>.\<close>

fun opt_prop :: "jsval \<Rightarrow> string \<Rightarrow> jsval" where
  "opt_prop (Obj kvs) k = (case map_of kvs k of Some v \<Rightarrow> v | None \<Rightarrow> Undefined)"
| "opt_prop v k = Undefined"

subsection \<open>Numbers\<close>

text \<open>
  \<open>num_lt a b\<close> is the comparison of two numbers as the relational operators make it:
  \<open>None\<close> is the result \<^verbatim>\<open>undefined\<close> that a NaN operand gives.
\<close>

fun num_lt :: "jsnum \<Rightarrow> jsnum \<Rightarrow> bool option" where
  "num_lt NaN b = None"
| "num_lt a NaN = None"
| "num_lt (Fin a) (Fin b) = Some (a < b)"
| "num_lt NInf NInf = Some False"
| "num_lt NInf b = Some True"
| "num_lt a NInf = Some False"
| "num_lt PInf b = Some False"
| "num_lt a PInf = Some True"

text \<open>\<^verbatim>\<open>Math.min\<close> and \<^verbatim>\<open>Math.max\<close> of two numbers: NaN as soon as one argument is NaN.\<close>

definition num_min :: "jsnum \<Rightarrow> jsnum \<Rightarrow> jsnum" where
  "num_min a b = (case num_lt a b of None \<Rightarrow> NaN | Some lt \<Rightarrow> if lt then a else b)"

definition num_max :: "jsnum \<Rightarrow> jsnum \<Rightarrow> jsnum" where
  "num_max a b = (case num_lt a b of None \<Rightarrow> NaN | Some lt \<Rightarrow> if lt then b else a)"

fun num_add :: "jsnum \<Rightarrow> jsnum \<Rightarrow> jsnum" where
  "num_add NaN b = NaN"
| "num_add a NaN = NaN"
| "num_add (Fin a) (Fin b) = Fin (a + b)"
| "num_add NInf PInf = NaN"
| "num_add PInf NInf = NaN"
| "num_add NInf b = NInf"
| "num_add a NInf = NInf"
| "num_add PInf b = PInf"
| "num_add a PInf = PInf"

text \<open>Division by a positive finite constant, the only division of the classifier.\<close>

fun num_div_pos :: "jsnum \<Rightarrow> real \<Rightarrow> jsnum" where
  "num_div_pos NaN d = NaN"
| "num_div_pos NInf d = NInf"
| "num_div_pos PInf d = PInf"
| "num_div_pos (Fin a) d = Fin (a / d)"

subsection \<open>Conversion of strings to numbers\<close>

text \<open>
  \<^verbatim>\<open>StringToNumber\<close> of ECMAScript: surrounding white space is dropped; the empty string
  is 0; a binary, octal or hexadecimal literal (\<^verbatim>\<open>0b\<close>, \<^verbatim>\<open>0o\<close>, \<^verbatim>\<open>0x\<close>) carries no
  sign; a decimal literal has an optional sign, digits with an optional fraction and an
  optional exponent, or is \<^verbatim>\<open>Infinity\<close>; everything else is NaN. Strings are
  sequences of 8-bit characters here, so only the ASCII white space is recognised.
\<close>

definition is_ws :: "char \<Rightarrow> bool" where
  "is_ws c = (of_char c \<in> {9, 10, 11, 12, 13, 32 :: nat})"

definition trim :: "string \<Rightarrow> string" where
  "trim s = rev (dropWhile is_ws (rev (dropWhile is_ws s)))"

definition digit_val :: "char \<Rightarrow> nat option" where
  "digit_val c =
     (let n = (of_char c :: nat) in
      if 48 \<le> n \<and> n \<le> 57 then Some (n - 48)
      else if 97 \<le> n \<and> n \<le> 102 then Some (n - 87)
      else if 65 \<le> n \<and> n \<le> 70 then Some (n - 55)
      else None)"

fun digits_val :: "nat \<Rightarrow> string \<Rightarrow> nat \<Rightarrow> nat option" where
  "digits_val b [] acc = Some acc"
| "digits_val b (c # cs) acc =
     (case digit_val c of
        None \<Rightarrow> None
      | Some d \<Rightarrow> if d < b then digits_val b cs (acc * b + d) else None)"

text \<open>A non-empty run of digits of base \<open>b\<close>, and a possibly empty one.\<close>

definition digits1 :: "nat \<Rightarrow> string \<Rightarrow> nat option" where
  "digits1 b s = (if s = [] then None else digits_val b s 0)"

definition digits0 :: "nat \<Rightarrow> string \<Rightarrow> nat option" where
  "digits0 b s = digits_val b s 0"

definition non_decimal :: "string \<Rightarrow> nat option" where
  "non_decimal s =
     (case s of
        c0 # c1 # ds \<Rightarrow>
          if c0 \<noteq> CHR ''0'' then None
          else if c1 = CHR ''x'' \<or> c1 = CHR ''X'' then digits1 16 ds
          else if c1 = CHR ''o'' \<or> c1 = CHR ''O'' then digits1 8 ds
          else if c1 = CHR ''b'' \<or> c1 = CHR ''B'' then digits1 2 ds
          else None
      | _ \<Rightarrow> None)"

definition is_exp_mark :: "char \<Rightarrow> bool" where
  "is_exp_mark c = (c = CHR ''e'' \<or> c = CHR ''E'')"

text \<open>The exponent part after its \<^verbatim>\<open>e\<close>: an optional sign and at least one digit.\<close>

definition exponent :: "string \<Rightarrow> int option" where
  "exponent s =
     (case s of
        [] \<Rightarrow> None
      | c # cs \<Rightarrow>
          if c = CHR ''-'' then map_option (\<lambda>n. - int n) (digits1 10 cs)
          else if c = CHR ''+'' then map_option int (digits1 10 cs)
          else map_option int (digits1 10 s))"

text \<open>The mantissa: digits, digits with a fraction, or a fraction alone.\<close>

definition mantissa :: "string \<Rightarrow> real option" where
  "mantissa s =
     (let ip = takeWhile (\<lambda>c. c \<noteq> CHR ''.'') s;
          rest = dropWhile (\<lambda>c. c \<noteq> CHR ''.'') s in
      if rest = [] then map_option real (digits1 10 ip)
      else if ip = [] \<and> tl rest = [] then None
      else (case (digits0 10 ip, digits0 10 (tl rest)) of
              (Some i, Some f) \<Rightarrow> Some (real i + real f / 10 ^ length (tl rest))
            | _ \<Rightarrow> None))"

definition pow10 :: "int \<Rightarrow> real" where
  "pow10 e = (if 0 \<le> e then 10 ^ nat e else 1 / 10 ^ nat (- e))"

definition unsigned_decimal :: "string \<Rightarrow> jsnum option" where
  "unsigned_decimal s =
     (if s = ''Infinity'' then Some PInf
      else
        let m = takeWhile (\<lambda>c. \<not> is_exp_mark c) s;
            rest = dropWhile (\<lambda>c. \<not> is_exp_mark c) s in
        (case mantissa m of
           None \<Rightarrow> None
         | Some v \<Rightarrow>
             if rest = [] then Some (Fin v)
             else (case exponent (tl rest) of
                     None \<Rightarrow> None
                   | Some e \<Rightarrow> Some (Fin (v * pow10 e)))))"

fun num_neg :: "jsnum \<Rightarrow> jsnum" where
  "num_neg NaN = NaN"
| "num_neg NInf = PInf"
| "num_neg PInf = NInf"
| "num_neg (Fin a) = Fin (- a)"

definition StringToNumber :: "string \<Rightarrow> jsnum" where
  "StringToNumber str =
     (let s = trim str in
      if s = [] then Fin 0
      else (case non_decimal s of
              Some n \<Rightarrow> Fin (real n)
            | None \<Rightarrow>
                if hd s = CHR ''-'' then
                  (case unsigned_decimal (tl s) of None \<Rightarrow> NaN | Some v \<Rightarrow> num_neg v)
                else if hd s = CHR ''+'' then
                  (case unsigned_decimal (tl s) of None \<Rightarrow> NaN | Some v \<Rightarrow> v)
                else
                  (case unsigned_decimal s of None \<Rightarrow> NaN | Some v \<Rightarrow> v)))"

text \<open>
  \<^verbatim>\<open>ToNumber\<close>. An array or object is first turned into a string: an object into
  \<^verbatim>\<open>[object Object]\<close>, which is not a number; an array into its elements joined by commas,
  where \<^verbatim>\<open>null\<close> and \<^verbatim>\<open>undefined\<close> elements are empty. So the empty array is 0, an array of
  two or more elements is NaN (no numeric literal has a comma), and a one-element array is
  the number of its element's string, which for a number is that number again.
\<close>

fun ToNumber :: "jsval \<Rightarrow> jsnum" where
  "ToNumber Undefined = NaN"
| "ToNumber Null = Fin 0"
| "ToNumber (Bool b) = (if b then Fin 1 else Fin 0)"
| "ToNumber (Num n) = n"
| "ToNumber (Str s) = StringToNumber s"
| "ToNumber (Obj kvs) = NaN"
| "ToNumber (Arr []) = Fin 0"
| "ToNumber (Arr [Undefined]) = Fin 0"
| "ToNumber (Arr [Null]) = Fin 0"
| "ToNumber (Arr [Bool b]) = NaN"
| "ToNumber (Arr [Num n]) = n"
| "ToNumber (Arr [Str s]) = StringToNumber s"
| "ToNumber (Arr [Obj kvs]) = NaN"
| "ToNumber (Arr [Arr ys]) = ToNumber (Arr ys)"
| "ToNumber (Arr (x # y # zs)) = NaN"

text \<open>
  The conversion of an object to a primitive calls its \<^verbatim>\<open>valueOf\<close> and \<^verbatim>\<open>toString\<close>. A
  parsed JSON object inherits both, unless it has a property of that name itself, whose
  value is then not a function. With an own \<^verbatim>\<open>toString\<close> no call yields a primitive and the
  conversion throws a TypeError; an own \<^verbatim>\<open>valueOf\<close> alone does no harm. An array throws
  when the printing of one of its elements does. \<open>ToNumber\<close> above and \<open>ToString\<close>
  below are the conversions of the values that do not throw.
\<close>

fun unprintable :: "jsval \<Rightarrow> bool" where
  "unprintable (Obj kvs) = (''toString'' \<in> fst ` set kvs)"
| "unprintable (Arr xs) = (\<exists>x \<in> set xs. unprintable x)"
| "unprintable v = False"

definition to_number :: "jsval \<Rightarrow> js_error + jsnum" where
  "to_number v = (if unprintable v then Inl TypeError else Inr (ToNumber v))"

section \<open>The classification client\<close>

text \<open>
  \<^verbatim>\<open>src/ai/classifier.js\<close>. The fixed domains of the three enumerated fields, in the
  order of the source.
\<close>

definition CATEGORIES :: "string list" where
  "CATEGORIES = [''billing'', ''technical'', ''feature_request'', ''bug'', ''account'', ''general'']"

definition PRIORITIES :: "string list" where
  "PRIORITIES = [''low'', ''medium'', ''high'', ''urgent'']"

definition SENTIMENTS :: "string list" where
  "SENTIMENTS = [''positive'', ''neutral'', ''negative'', ''very_negative'']"

text \<open>
  The result object. \<open>reasoning\<close> is whatever truthy value the service sent, or a string.
\<close>

record Sentiment =
  label :: string
  score :: jsnum

record Confidence =
  category :: jsnum
  priority :: jsnum
  sentiment :: jsnum

record ClassificationResult =
  category :: string
  priority :: string
  sentiment :: Sentiment
  confidence :: Confidence
  reasoning :: jsval
  modelVersion :: string
  modelProvider :: string
  processingTimeMs :: int
  overallConfidence :: jsnum

text \<open>
  The module constants \<^verbatim>\<open>MODEL\<close> and \<^verbatim>\<open>provider\<close> come from the process environment;
  they are parameters here.
\<close>

record Settings =
  MODEL :: string
  provider :: string

text \<open>
  \<^verbatim>\<open>CATEGORIES.includes(v) ? v : d\<close>: \<^verbatim>\<open>includes\<close> compares without conversion, so only
  a string of the list is kept.
\<close>

definition enum_or :: "string list \<Rightarrow> jsval \<Rightarrow> string \<Rightarrow> string" where
  "enum_or domain v d = (case v of Str s \<Rightarrow> if s \<in> set domain then s else d | _ \<Rightarrow> d)"

text \<open>
  \<^verbatim>\<open>Math.max(lo, Math.min(1, v || d))\<close>: both functions convert their argument to a
  number, which throws for a value that cannot be converted.
\<close>

definition clamp_field :: "real \<Rightarrow> jsval \<Rightarrow> real \<Rightarrow> js_error + jsnum" where
  "clamp_field lo v d =
     (case to_number (js_or v (Num (Fin d))) of
        Inl e \<Rightarrow> Inl e
      | Inr n \<Rightarrow> Inr (num_max (Fin lo) (num_min (Fin 1) n)))"

text \<open>
  The body of the \<^verbatim>\<open>try\<close> block from the parsed answer \<open>result\<close> on. The first property
  access \<^verbatim>\<open>result.category\<close> throws when \<open>result\<close> is \<^verbatim>\<open>null\<close>; the later ones then
  cannot, and \<^verbatim>\<open>result.sentiment?.label\<close>, \<^verbatim>\<open>result.confidence?.category\<close> are optional
  chains. The four numeric fields are computed in the order of the object literal, and
  the first that throws ends the block. \<open>processingTime\<close> is \<^verbatim>\<open>Date.now() - startTime\<close>.
\<close>

definition normalize :: "Settings \<Rightarrow> int \<Rightarrow> jsval \<Rightarrow> js_error + ClassificationResult" where
  "normalize cfg processingTime result =
     (case get_prop result ''category'' of
        Inl e \<Rightarrow> Inl e
      | Inr cat \<Rightarrow>
          let pri = opt_prop result ''priority'';
              sen = opt_prop result ''sentiment'';
              con = opt_prop result ''confidence''
          in (case clamp_field (-1) (opt_prop sen ''score'') 0 of
                Inl e \<Rightarrow> Inl e
              | Inr sentiment_score \<Rightarrow>
          (case clamp_field 0 (opt_prop con ''category'') (1/2) of
                Inl e \<Rightarrow> Inl e
              | Inr category_confidence \<Rightarrow>
          (case clamp_field 0 (opt_prop con ''priority'') (1/2) of
                Inl e \<Rightarrow> Inl e
              | Inr priority_confidence \<Rightarrow>
          (case clamp_field 0 (opt_prop con ''sentiment'') (1/2) of
                Inl e \<Rightarrow> Inl e
              | Inr sentiment_confidence \<Rightarrow>
                  Inr \<lparr> category = enum_or CATEGORIES cat ''general'',
                         priority = enum_or PRIORITIES pri ''medium'',
                         sentiment = \<lparr> label = enum_or SENTIMENTS (opt_prop sen ''label'') ''neutral'',
                                       score = sentiment_score \<rparr>,
                         confidence = \<lparr> Confidence.category = category_confidence,
                                        Confidence.priority = priority_confidence,
                                        Confidence.sentiment = sentiment_confidence \<rparr>,
                         reasoning = js_or (opt_prop result ''reasoning'') (Str []),
                         modelVersion = MODEL cfg,
                         modelProvider = provider cfg,
                         processingTimeMs = processingTime,
                         overallConfidence =
                           num_div_pos
                             (num_add (num_add category_confidence priority_confidence)
                                sentiment_confidence) 3 \<rparr>)))))"

text \<open>The object returned by the \<^verbatim>\<open>catch\<close> block.\<close>

definition fallback :: "Settings \<Rightarrow> int \<Rightarrow> ClassificationResult" where
  "fallback cfg elapsed =
     \<lparr> category = ''general'',
       priority = ''medium'',
       sentiment = \<lparr> label = ''neutral'', score = Fin 0 \<rparr>,
       confidence = \<lparr> Confidence.category = Fin 0, Confidence.priority = Fin 0,
                      Confidence.sentiment = Fin 0 \<rparr>,
       reasoning = Str ''Classification failed'',
       modelVersion = MODEL cfg,
       modelProvider = provider cfg,
       processingTimeMs = elapsed,
       overallConfidence = Fin 0 \<rparr>"

text \<open>
  What the awaited request and \<^verbatim>\<open>JSON.parse\<close> deliver inside the \<^verbatim>\<open>try\<close> block: the
  request rejects, the answer has no parsable content, or a JSON value is parsed.
\<close>

datatype upstream = Rejected | Unparsable | Parsed jsval

definition try_block :: "Settings \<Rightarrow> int \<Rightarrow> int \<Rightarrow> upstream \<Rightarrow> js_error + ClassificationResult" where
  "try_block cfg startTime now up =
     (case up of
        Rejected \<Rightarrow> Inl ServiceError
      | Unparsable \<Rightarrow> Inl ServiceError
      | Parsed result \<Rightarrow> normalize cfg (now - startTime) result)"

text \<open>
  \<^verbatim>\<open>classify\<close>. \<open>startTime\<close> is the clock reading on entry and \<open>now\<close> the second reading,
  taken after parsing on the success path and inside \<^verbatim>\<open>catch\<close> on the failure path. The
  caller passes an object with the two strings of the ticket, from which only the prompt
  is built; the result depends on the ticket through the answer of the service alone. A
  result \<open>Inl e\<close> would be an exception reaching the caller.
\<close>

definition classify :: "Settings \<Rightarrow> int \<Rightarrow> int \<Rightarrow> upstream \<Rightarrow> js_error + ClassificationResult" where
  "classify cfg startTime now up =
     (case try_block cfg startTime now up of
        Inr classification \<Rightarrow> Inr classification
      | Inl error \<Rightarrow> Inr (fallback cfg (now - startTime)))"

text \<open>Membership of a number in a closed interval of the reals; NaN and the infinities are in none.\<close>

definition in_range :: "real \<Rightarrow> real \<Rightarrow> jsnum \<Rightarrow> bool" where
  "in_range lo hi n = (case n of Fin x \<Rightarrow> lo \<le> x \<and> x \<le> hi | _ \<Rightarrow> False)"

text \<open>
  Equality of two numbers within a tolerance, as a test compares them: the distance of two
  finite numbers is at most \<open>eps\<close>. NaN is equal to nothing, itself included.
\<close>

definition within_tolerance :: "real \<Rightarrow> jsnum \<Rightarrow> jsnum \<Rightarrow> bool" where
  "within_tolerance eps a b =
     (case a of
        Fin x \<Rightarrow> (case b of Fin y \<Rightarrow> \<bar>x - y\<bar> \<le> eps | _ \<Rightarrow> False)
      | _ \<Rightarrow> False)"

section \<open>More of JavaScript, for the routing engine\<close>

subsection \<open>Strings\<close>

text \<open>
  \<^verbatim>\<open>ToString\<close>, as a template literal applies it. How a number is printed
  (\<^verbatim>\<open>Number::toString\<close>, the shortest digits that read back as the same double) is not
  re-implemented: it is the parameter \<open>n2s\<close> of everything that may print a number.
  An array prints its elements joined by commas, \<^verbatim>\<open>null\<close> and \<^verbatim>\<open>undefined\<close> as nothing.
\<close>

fun join :: "string list \<Rightarrow> string" where
  "join [] = []"
| "join [s] = s"
| "join (s # t # ts) = s @ '','' @ join (t # ts)"

fun ToString :: "(jsnum \<Rightarrow> string) \<Rightarrow> jsval \<Rightarrow> string" where
  "ToString n2s Undefined = ''undefined''"
| "ToString n2s Null = ''null''"
| "ToString n2s (Bool b) = (if b then ''true'' else ''false'')"
| "ToString n2s (Num n) = n2s n"
| "ToString n2s (Str s) = s"
| "ToString n2s (Obj kvs) = ''[object Object]''"
| "ToString n2s (Arr xs) =
     join (map (\<lambda>x. if x = Undefined \<or> x = Null then [] else ToString n2s x) xs)"

definition to_string :: "(jsnum \<Rightarrow> string) \<Rightarrow> jsval \<Rightarrow> js_error + string" where
  "to_string n2s v = (if unprintable v then Inl TypeError else Inr (ToString n2s v))"

text \<open>
  \<^verbatim>\<open>toLowerCase\<close> on the ASCII letters; the characters are 8-bit here and every other
  character is left as it is.
\<close>

definition lower_char :: "char \<Rightarrow> char" where
  "lower_char c =
     (let n = (of_char c :: nat) in if 65 \<le> n \<and> n \<le> 90 then char_of (n + 32) else c)"

definition toLowerCase :: "string \<Rightarrow> string" where
  "toLowerCase s = map lower_char s"

text \<open>\<^verbatim>\<open>text.includes(keyword)\<close>: the keyword occurs as a contiguous part of the text.\<close>

fun starts_with :: "string \<Rightarrow> string \<Rightarrow> bool" where
  "starts_with s [] = True"
| "starts_with [] (k # ks) = False"
| "starts_with (c # cs) (k # ks) = (c = k \<and> starts_with cs ks)"

fun str_includes :: "string \<Rightarrow> string \<Rightarrow> bool" where
  "str_includes [] k = (k = [])"
| "str_includes (c # cs) k = (starts_with (c # cs) k \<or> str_includes cs k)"

text \<open>The order of strings under \<^verbatim>\<open><\<close>: by character codes, a proper prefix first.\<close>

fun str_less :: "string \<Rightarrow> string \<Rightarrow> bool" where
  "str_less [] [] = False"
| "str_less [] (y # ys) = True"
| "str_less (x # xs) [] = False"
| "str_less (x # xs) (y # ys) =
     (if x = y then str_less xs ys else (of_char x :: nat) < of_char y)"

text \<open>The decimal digits of an array index, as \<^verbatim>\<open>Object.entries\<close> names it.\<close>

fun nat_to_string :: "nat \<Rightarrow> string" where
  "nat_to_string n =
     (if n < 10 then [char_of (48 + n)] else nat_to_string (n div 10) @ [char_of (48 + n mod 10)])"

subsection \<open>Equality and comparison\<close>

text \<open>
  Strict equality \<^verbatim>\<open>===\<close>. Two primitives are equal when they have the same type and
  value, NaN being unequal to itself. Arrays and objects are equal only to themselves; the
  values compared below come from different parsed documents (a ticket row, a rule
  condition), so they are never the same object.
\<close>

fun strict_eq :: "jsval \<Rightarrow> jsval \<Rightarrow> bool" where
  "strict_eq Undefined Undefined = True"
| "strict_eq Null Null = True"
| "strict_eq (Bool a) (Bool b) = (a = b)"
| "strict_eq (Num a) (Num b) = (a \<noteq> NaN \<and> a = b)"
| "strict_eq (Str a) (Str b) = (a = b)"
| "strict_eq a b = False"

text \<open>\<^verbatim>\<open>SameValueZero\<close>, the comparison of \<^verbatim>\<open>Array.prototype.includes\<close>: NaN equals NaN.\<close>

fun same_value_zero :: "jsval \<Rightarrow> jsval \<Rightarrow> bool" where
  "same_value_zero (Num a) (Num b) = (a = b)"
| "same_value_zero a b = strict_eq a b"

text \<open>
  The relational comparison behind \<^verbatim>\<open><\<close>, \<^verbatim>\<open>>\<close>, \<^verbatim>\<open><=\<close> and \<^verbatim>\<open>>=\<close>. Arrays and objects
  are turned into strings first, which may throw; two strings are compared as strings,
  everything else as numbers. \<open>None\<close> is the undefined result of a NaN operand, which
  makes all four operators false. Both operands are converted before they are compared,
  and either conversion fails with the same error.
\<close>

definition ToPrimitive :: "(jsnum \<Rightarrow> string) \<Rightarrow> jsval \<Rightarrow> js_error + jsval" where
  "ToPrimitive n2s v =
     (if unprintable v then Inl TypeError
      else Inr (case v of
                  Arr xs \<Rightarrow> Str (ToString n2s v)
                | Obj kvs \<Rightarrow> Str (ToString n2s v)
                | _ \<Rightarrow> v))"

definition js_less :: "(jsnum \<Rightarrow> string) \<Rightarrow> jsval \<Rightarrow> jsval \<Rightarrow> js_error + bool option" where
  "js_less n2s a b =
     (case ToPrimitive n2s a of
        Inl e \<Rightarrow> Inl e
      | Inr p \<Rightarrow>
          (case ToPrimitive n2s b of
             Inl e \<Rightarrow> Inl e
           | Inr q \<Rightarrow>
               Inr (case (p, q) of
                      (Str s, Str t) \<Rightarrow> Some (str_less s t)
                    | _ \<Rightarrow> num_lt (ToNumber p) (ToNumber q))))"

definition js_lt :: "(jsnum \<Rightarrow> string) \<Rightarrow> jsval \<Rightarrow> jsval \<Rightarrow> js_error + bool" where
  "js_lt n2s a b = (case js_less n2s a b of Inl e \<Rightarrow> Inl e | Inr r \<Rightarrow> Inr (r = Some True))"

definition js_gt :: "(jsnum \<Rightarrow> string) \<Rightarrow> jsval \<Rightarrow> jsval \<Rightarrow> js_error + bool" where
  "js_gt n2s a b = (case js_less n2s b a of Inl e \<Rightarrow> Inl e | Inr r \<Rightarrow> Inr (r = Some True))"

definition js_le :: "(jsnum \<Rightarrow> string) \<Rightarrow> jsval \<Rightarrow> jsval \<Rightarrow> js_error + bool" where
  "js_le n2s a b = (case js_less n2s b a of Inl e \<Rightarrow> Inl e | Inr r \<Rightarrow> Inr (r = Some False))"

definition js_ge :: "(jsnum \<Rightarrow> string) \<Rightarrow> jsval \<Rightarrow> jsval \<Rightarrow> js_error + bool" where
  "js_ge n2s a b = (case js_less n2s a b of Inl e \<Rightarrow> Inl e | Inr r \<Rightarrow> Inr (r = Some False))"

subsection \<open>Objects\<close>

text \<open>
  An object is the list of its own properties. \<open>field\<close> is the access to a property
  by one of the fixed names that the code reads (\<^verbatim>\<open>ticket.category\<close>, \<^verbatim>\<open>value.$gt\<close>, ...),
  none of which an object inherits: \<^verbatim>\<open>undefined\<close> for a missing key.
\<close>

type_synonym obj = "(string \<times> jsval) list"

definition field :: "obj \<Rightarrow> string \<Rightarrow> jsval" where
  "field t k = (case map_of t k of Some v \<Rightarrow> v | None \<Rightarrow> Undefined)"

text \<open>
  \<^verbatim>\<open>Object.entries\<close> of a truthy value: the properties of an object, the indexed elements
  of an array, the indexed characters of a string, nothing for a number or \<^verbatim>\<open>true\<close>.
\<close>

fun entries :: "jsval \<Rightarrow> (string \<times> jsval) list" where
  "entries (Obj kvs) = kvs"
| "entries (Arr xs) = zip (map nat_to_string [0..<length xs]) xs"
| "entries (Str s) = zip (map nat_to_string [0..<length s]) (map (\<lambda>c. Str [c]) s)"
| "entries v = []"

text \<open>
  Where the key of an access is itself data (\<^verbatim>\<open>ticket[key]\<close> with the key of a rule
  condition, \<^verbatim>\<open>categoryToSkills[category]\<close>), the access also sees what every object
  inherits from \<^verbatim>\<open>Object.prototype\<close>: for these keys it yields a built-in function or,
  for \<^verbatim>\<open>__proto__\<close>, the prototype itself. Such a value is truthy, is an object that no
  JSON value equals, has none of the array methods, and is printed by the runtime as
  \<open>member_text\<close> gives it.
\<close>

definition object_prototype_keys :: "string list" where
  "object_prototype_keys =
     [''constructor'', ''hasOwnProperty'', ''isPrototypeOf'', ''propertyIsEnumerable'',
      ''toLocaleString'', ''toString'', ''valueOf'', ''__proto__'', ''__defineGetter__'',
      ''__defineSetter__'', ''__lookupGetter__'', ''__lookupSetter__'']"

datatype 'a lookup = Own 'a | Inherited | Absent

definition table_lookup :: "(string \<times> 'a) list \<Rightarrow> string \<Rightarrow> 'a lookup" where
  "table_lookup table key =
     (case map_of table key of
        Some v \<Rightarrow> Own v
      | None \<Rightarrow> if key \<in> set object_prototype_keys then Inherited else Absent)"

definition member_text :: "string \<Rightarrow> string" where
  "member_text key =
     (if key = ''__proto__'' then ''[object Object]''
      else if key = ''constructor'' then ''function Object() { [native code] }''
      else ''function '' @ key @ ''() { [native code] }'')"

section \<open>The routing engine\<close>

text \<open>
  \<^verbatim>\<open>src/ai/router.js\<close>. The ticket is an object read field by field, and a rule's
  conditions are a JSON value; both stay dynamically typed. Agents, teams and rules are
  rows of the database and are typed as their tables are, a nullable column being an
  \<open>option\<close>. \<^verbatim>\<open>current_ticket_count\<close> is a number the caller may attach to an agent.

  Four callbacks of the file are written with \<^verbatim>\<open>=\<close> where an arrow \<^verbatim>\<open>=>\<close> was meant:
  \<^verbatim>\<open>relevantSkills.some(skill = team.skills.includes(skill))\<close> in \<^verbatim>\<open>findTeamByCategory\<close>,
  \<^verbatim>\<open>relevantSkills.filter(skill = agent.skills.includes(skill))\<close> and
  \<^verbatim>\<open>agent.team_members?.some(tm = tm.team_id === teamId && tm.is_team_lead)\<close> in
  \<^verbatim>\<open>findBestAgentInTeam\<close>, and \<^verbatim>\<open>agent.team_members.some(tm = tm.is_team_lead && ...)\<close> in
  \<^verbatim>\<open>findSeniorAgent\<close>. Each argument is therefore an assignment whose right-hand side reads
  a variable that nothing declares. The arguments of a call are evaluated before the call,
  so each of the four expressions throws a ReferenceError whenever it is reached, whatever
  the list it is applied to. The model follows the file as it is written.
\<close>

record TeamMember =
  team_id :: string
  is_team_lead :: bool

record Agent =
  id :: string
  first_name :: "string option"
  skills :: "string list option"
  team_members :: "TeamMember list option"
  role :: "string option"
  current_ticket_count :: "int option"
  max_tickets :: "int option"
  is_active :: bool

record Team =
  id :: string
  name :: string
  skills :: "string list option"

record Rule =
  name :: string
  conditions :: jsval
  assign_to_team :: "string option"
  assign_to_user :: "string option"
  set_priority :: "string option"
  add_tags :: "string list option"
  priority :: "int option"
  is_active :: bool

record RuleMatch =
  ruleName :: string
  assignToTeam :: "string option"
  assignToUser :: "string option"
  setPriority :: "string option"
  addTags :: "string list option"

record RoutingDecision =
  assignToUser :: "string option"
  assignToTeam :: "string option"
  setPriority :: "string option"
  addTags :: "string list"
  reason :: string
  confidence :: real

text \<open>Truthiness of a nullable string: set and not empty.\<close>

definition assigned :: "string option \<Rightarrow> bool" where
  "assigned s = (case s of None \<Rightarrow> False | Some v \<Rightarrow> v \<noteq> [])"

subsection \<open>Rules\<close>

text \<open>
  One of the tests \<^verbatim>\<open>if (value.$gt !== undefined && !(ticketValue > value.$gt)) return false\<close>
  of \<^verbatim>\<open>matchesRule\<close>, followed by the rest of the loop body: nothing is compared when the
  operand is missing, the comparison may throw, and a comparison that fails ends the
  function with \<^verbatim>\<open>false\<close>.
\<close>

definition guard :: "jsval \<Rightarrow> js_error + bool \<Rightarrow> js_error + bool \<Rightarrow> js_error + bool" where
  "guard operand test rest =
     (if operand = Undefined then rest
      else (case test of
              Inl e \<Rightarrow> Inl e
            | Inr holds \<Rightarrow> if holds then rest else Inr False))"

text \<open>
  One iteration of the loop of \<^verbatim>\<open>matchesRule\<close>: \<open>Inr True\<close> lets the loop go on,
  \<open>Inr False\<close> is its \<^verbatim>\<open>return false\<close>. A condition whose value is \<^verbatim>\<open>null\<close> passes
  \<^verbatim>\<open>typeof value === 'object'\<close>, and reading \<^verbatim>\<open>value.$gt\<close> then throws.
\<close>

definition match_condition :: "(jsnum \<Rightarrow> string) \<Rightarrow> jsval \<Rightarrow> jsval \<Rightarrow> js_error + bool" where
  "match_condition n2s ticketValue v =
     (case v of
        Arr vs \<Rightarrow> Inr (\<exists>x \<in> set vs. same_value_zero x ticketValue)
      | Null \<Rightarrow> Inl TypeError
      | Obj kvs \<Rightarrow>
          guard (field kvs ''$gt'') (js_gt n2s ticketValue (field kvs ''$gt''))
         (guard (field kvs ''$lt'') (js_lt n2s ticketValue (field kvs ''$lt''))
         (guard (field kvs ''$gte'') (js_ge n2s ticketValue (field kvs ''$gte''))
         (guard (field kvs ''$lte'') (js_le n2s ticketValue (field kvs ''$lte''))
         (Inr (\<not> (field kvs ''$ne'' \<noteq> Undefined \<and> strict_eq ticketValue (field kvs ''$ne'')))))))
      | _ \<Rightarrow> Inr (strict_eq ticketValue v))"

text \<open>
  The same iteration when \<^verbatim>\<open>ticket[key]\<close> is an inherited member, printed as \<open>text\<close>.
  The member is in no array of JSON values and is strictly equal to no JSON value; in a
  relational comparison it is converted to its text.
\<close>

definition match_inherited :: "(jsnum \<Rightarrow> string) \<Rightarrow> string \<Rightarrow> jsval \<Rightarrow> js_error + bool" where
  "match_inherited n2s text v =
     (case v of
        Arr vs \<Rightarrow> Inr False
      | Null \<Rightarrow> Inl TypeError
      | Obj kvs \<Rightarrow>
          guard (field kvs ''$gt'') (js_gt n2s (Str text) (field kvs ''$gt''))
         (guard (field kvs ''$lt'') (js_lt n2s (Str text) (field kvs ''$lt''))
         (guard (field kvs ''$gte'') (js_ge n2s (Str text) (field kvs ''$gte''))
         (guard (field kvs ''$lte'') (js_le n2s (Str text) (field kvs ''$lte''))
         (Inr True))))
      | _ \<Rightarrow> Inr False)"

fun match_entries :: "(jsnum \<Rightarrow> string) \<Rightarrow> obj \<Rightarrow> (string \<times> jsval) list \<Rightarrow> js_error + bool" where
  "match_entries n2s ticket [] = Inr True"
| "match_entries n2s ticket ((key, v) # rest) =
     (case (case table_lookup ticket key of
              Own ticketValue \<Rightarrow> match_condition n2s ticketValue v
            | Absent \<Rightarrow> match_condition n2s Undefined v
            | Inherited \<Rightarrow> match_inherited n2s (member_text key) v) of
        Inl e \<Rightarrow> Inl e
      | Inr ok \<Rightarrow> if ok then match_entries n2s ticket rest else Inr False)"

definition matchesRule :: "(jsnum \<Rightarrow> string) \<Rightarrow> obj \<Rightarrow> jsval \<Rightarrow> js_error + bool" where
  "matchesRule n2s ticket conds =
     (if \<not> truthy conds then Inr False else match_entries n2s ticket (entries conds))"

text \<open>\<^verbatim>\<open>rule.priority || 0\<close>.\<close>

definition rule_priority :: "Rule \<Rightarrow> int" where
  "rule_priority r = (case Rule.priority r of None \<Rightarrow> 0 | Some p \<Rightarrow> p)"

text \<open>
  The loop over the sorted rules. \<^verbatim>\<open>Array.prototype.sort\<close> is stable, and the comparator
  \<^verbatim>\<open>(b.priority || 0) - (a.priority || 0)\<close> orders by descending priority: that is the
  stable insertion sort \<open>sort_key\<close> on the negated priority.
\<close>

fun first_match :: "(jsnum \<Rightarrow> string) \<Rightarrow> obj \<Rightarrow> Rule list \<Rightarrow> js_error + RuleMatch option" where
  "first_match n2s ticket [] = Inr None"
| "first_match n2s ticket (rule # rest) =
     (case matchesRule n2s ticket (conditions rule) of
        Inl e \<Rightarrow> Inl e
      | Inr m \<Rightarrow>
          if m then Inr (Some \<lparr> ruleName = Rule.name rule,
                                RuleMatch.assignToTeam = assign_to_team rule,
                                RuleMatch.assignToUser = assign_to_user rule,
                                RuleMatch.setPriority = set_priority rule,
                                RuleMatch.addTags = add_tags rule \<rparr>)
          else first_match n2s ticket rest)"

definition sortedRules :: "Rule list \<Rightarrow> Rule list" where
  "sortedRules rules = sort_key (\<lambda>r. - rule_priority r) rules"

definition applyRoutingRules :: "(jsnum \<Rightarrow> string) \<Rightarrow> obj \<Rightarrow> Rule list \<Rightarrow> js_error + RuleMatch option" where
  "applyRoutingRules n2s ticket rules =
     (if rules = [] then Inr None else first_match n2s ticket (sortedRules rules))"

subsection \<open>Teams and agents\<close>

definition categoryToSkills :: "(string \<times> string list) list" where
  "categoryToSkills =
     [(''billing'', [''billing'', ''payments'', ''finance'']),
      (''technical'', [''technical'', ''engineering'', ''support'']),
      (''feature_request'', [''product'', ''feedback'']),
      (''bug'', [''technical'', ''engineering'', ''qa'']),
      (''account'', [''account'', ''customer_success'']),
      (''general'', [''support'', ''general''])]"

text \<open>
  The callback of \<^verbatim>\<open>teams.find\<close>, run over the teams in order. A team without skills is
  passed over. At the first team that has skills the callback evaluates
  \<^verbatim>\<open>relevantSkills.some(skill = team.skills.includes(skill))\<close> and throws, whatever
  \<open>relevantSkills\<close> is: the argument is evaluated before the method is called or even
  found to be missing.
\<close>

fun find_team :: "string list lookup \<Rightarrow> Team list \<Rightarrow> js_error + Team option" where
  "find_team relevantSkills [] = Inr None"
| "find_team relevantSkills (team # rest) =
     (case Team.skills team of
        None \<Rightarrow> find_team relevantSkills rest
      | Some sk \<Rightarrow>
          if sk = [] then find_team relevantSkills rest
          else Inl ReferenceError)"

text \<open>
  \<^verbatim>\<open>findTeamByCategory\<close>. The category is the key of the table lookup, for which it is
  converted to a string; \<^verbatim>\<open>|| ['support']\<close> replaces a missing entry.
\<close>

definition findTeamByCategory :: "(jsnum \<Rightarrow> string) \<Rightarrow> jsval \<Rightarrow> Team list \<Rightarrow> js_error + Team option" where
  "findTeamByCategory n2s cat teams =
     (if teams = [] then Inr None
      else (case to_string n2s cat of
              Inl e \<Rightarrow> Inl e
            | Inr key \<Rightarrow>
                let relevantSkills =
                      (case table_lookup categoryToSkills key of
                         Absent \<Rightarrow> Own [''support'']
                       | found \<Rightarrow> found)
                in (case find_team relevantSkills teams of
                      Inl e \<Rightarrow> Inl e
                    | Inr None \<Rightarrow> Inr (Some (hd teams))
                    | Inr (Some team) \<Rightarrow> Inr (Some team))))"

definition categorySkills :: "(string \<times> string list) list" where
  "categorySkills =
     [(''billing'', [''billing'', ''finance'']),
      (''technical'', [''technical'', ''engineering'']),
      (''feature_request'', [''product'']),
      (''bug'', [''technical'', ''qa'']),
      (''account'', [''account'', ''customer_success''])]"

text \<open>\<^verbatim>\<open>agent.current_ticket_count || 0\<close>, \<^verbatim>\<open>agent.max_tickets || 10\<close> and their quotient.\<close>

definition currentLoad :: "Agent \<Rightarrow> int" where
  "currentLoad agent = (case current_ticket_count agent of None \<Rightarrow> 0 | Some c \<Rightarrow> c)"

definition maxTickets :: "Agent \<Rightarrow> int" where
  "maxTickets agent = (case max_tickets agent of None \<Rightarrow> 10 | Some m \<Rightarrow> if m = 0 then 10 else m)"

definition load :: "Agent \<Rightarrow> real" where
  "load agent = real_of_int (currentLoad agent) / real_of_int (maxTickets agent)"

definition in_team :: "string \<Rightarrow> Agent \<Rightarrow> bool" where
  "in_team teamId agent =
     (case team_members agent of
        None \<Rightarrow> False
      | Some tms \<Rightarrow> \<exists>tm \<in> set tms. team_id tm = teamId)"

text \<open>
  The lead test of the scoring callback,
  \<^verbatim>\<open>agent.team_members?.some(tm = tm.team_id === teamId && tm.is_team_lead)\<close>: the optional
  chain yields \<^verbatim>\<open>undefined\<close> for an agent without memberships, and the argument throws for
  every other agent.
\<close>

definition isTeamLead :: "string \<Rightarrow> Agent \<Rightarrow> js_error + bool" where
  "isTeamLead teamId agent =
     (case team_members agent of
        None \<Rightarrow> Inr False
      | Some tms \<Rightarrow> Inl ReferenceError)"

text \<open>
  The skill part of the score. With skills on the agent and a category on the ticket the
  callback looks the category up, which converts it to a string, and then evaluates
  \<^verbatim>\<open>relevantSkills.filter(skill = agent.skills.includes(skill))\<close>, which throws.
\<close>

definition skill_score :: "(jsnum \<Rightarrow> string) \<Rightarrow> obj \<Rightarrow> Agent \<Rightarrow> js_error + real" where
  "skill_score n2s ticket agent =
     (case Agent.skills agent of
        None \<Rightarrow> Inr 0
      | Some sk \<Rightarrow>
          if \<not> truthy (field ticket ''category'') then Inr 0
          else (case to_string n2s (field ticket ''category'') of
                  Inl e \<Rightarrow> Inl e
                | Inr key \<Rightarrow> Inl ReferenceError))"

definition agent_score :: "(jsnum \<Rightarrow> string) \<Rightarrow> string \<Rightarrow> obj \<Rightarrow> Agent \<Rightarrow> js_error + real" where
  "agent_score n2s teamId ticket agent =
     (case skill_score n2s ticket agent of
        Inl e \<Rightarrow> Inl e
      | Inr s \<Rightarrow>
          (case isTeamLead teamId agent of
             Inl e \<Rightarrow> Inl e
           | Inr lead \<Rightarrow> Inr (s + (1 - load agent) * 20 + (if lead then 5 else 0))))"

fun score_agents :: "(jsnum \<Rightarrow> string) \<Rightarrow> string \<Rightarrow> obj \<Rightarrow> Agent list \<Rightarrow> js_error + (Agent \<times> real) list" where
  "score_agents n2s teamId ticket [] = Inr []"
| "score_agents n2s teamId ticket (agent # rest) =
     (case agent_score n2s teamId ticket agent of
        Inl e \<Rightarrow> Inl e
      | Inr s \<Rightarrow> (case score_agents n2s teamId ticket rest of
                    Inl e \<Rightarrow> Inl e
                  | Inr scored \<Rightarrow> Inr ((agent, s) # scored)))"

text \<open>
  \<^verbatim>\<open>findBestAgentInTeam\<close>: the agents of the team, their scores, the stable sort by
  descending score, then the first element.
\<close>

definition findBestAgentInTeam :: "(jsnum \<Rightarrow> string) \<Rightarrow> string \<Rightarrow> Agent list \<Rightarrow> obj \<Rightarrow> js_error + Agent option" where
  "findBestAgentInTeam n2s teamId agents ticket =
     (if agents = [] then Inr None
      else
        let teamAgents = filter (in_team teamId) agents in
        if teamAgents = [] then Inr None
        else (case score_agents n2s teamId ticket teamAgents of
                Inl e \<Rightarrow> Inl e
              | Inr scoredAgents \<Rightarrow>
                  (case sort_key (\<lambda>p. - snd p) scoredAgents of
                     [] \<Rightarrow> Inr None
                   | p # ps \<Rightarrow> Inr (Some (fst p)))))"

definition findLeastBusyAgent :: "Agent list \<Rightarrow> Agent option" where
  "findLeastBusyAgent agents =
     (if agents = [] then None
      else (case sort_key load agents of [] \<Rightarrow> None | a # as \<Rightarrow> Some a))"

text \<open>
  The filter for team leads of \<^verbatim>\<open>findSeniorAgent\<close>. Its callback returns \<^verbatim>\<open>false\<close> for an
  agent without memberships and evaluates
  \<^verbatim>\<open>agent.team_members.some(tm = tm.is_team_lead && (!teamId || tm.team_id === teamId))\<close>
  for every other agent, which throws, also when the array of memberships is empty.
\<close>

fun leads :: "string option \<Rightarrow> Agent list \<Rightarrow> js_error + Agent list" where
  "leads teamId [] = Inr []"
| "leads teamId (agent # rest) =
     (case team_members agent of
        None \<Rightarrow> leads teamId rest
      | Some tms \<Rightarrow> Inl ReferenceError)"

definition findSeniorAgent :: "Agent list \<Rightarrow> string option \<Rightarrow> js_error + Agent option" where
  "findSeniorAgent agents teamId =
     (if agents = [] then Inr None
      else (case leads teamId agents of
              Inl e \<Rightarrow> Inl e
            | Inr ls \<Rightarrow>
                if ls \<noteq> [] then Inr (findLeastBusyAgent ls)
                else
                  let managers = filter (\<lambda>a. role a = Some ''manager'') agents in
                  if managers \<noteq> [] then Inr (findLeastBusyAgent managers) else Inr None))"

subsection \<open>Escalation\<close>

definition escalationKeywords :: "string list" where
  "escalationKeywords =
     [''cancel'', ''refund'', ''lawsuit'', ''lawyer'', ''legal'',
      ''manager'', ''supervisor'', ''escalate'', ''complaint'',
      ''terrible'', ''awful'', ''unacceptable'', ''fraud'']"

text \<open>The template literal of subject and body, in lower case.\<close>

definition ticket_text :: "(jsnum \<Rightarrow> string) \<Rightarrow> obj \<Rightarrow> js_error + string" where
  "ticket_text n2s ticket =
     (case to_string n2s (field ticket ''subject'') of
        Inl e \<Rightarrow> Inl e
      | Inr s \<Rightarrow>
          (case to_string n2s (field ticket ''body'') of
             Inl e \<Rightarrow> Inl e
           | Inr b \<Rightarrow> Inr (toLowerCase (s @ '' '' @ b))))"

definition shouldEscalate :: "(jsnum \<Rightarrow> string) \<Rightarrow> obj \<Rightarrow> js_error + bool" where
  "shouldEscalate n2s ticket =
     (if strict_eq (field ticket ''priority'') (Str ''urgent'') then Inr True
      else if strict_eq (field ticket ''sentiment'') (Str ''very_negative'') then Inr True
      else (case js_lt n2s (field ticket ''sentiment_score'') (Num (Fin (- 1 / 2))) of
              Inl e \<Rightarrow> Inl e
            | Inr below \<Rightarrow>
                if below then Inr True
                else (case ticket_text n2s ticket of
                        Inl e \<Rightarrow> Inl e
                      | Inr text \<Rightarrow>
                          Inr (\<exists>keyword \<in> set escalationKeywords. str_includes text keyword))))"

subsection \<open>Confidence\<close>

definition calculateRoutingConfidence :: "(jsnum \<Rightarrow> string) \<Rightarrow> RoutingDecision \<Rightarrow> obj \<Rightarrow> js_error + real" where
  "calculateRoutingConfidence n2s routing ticket =
     (let c0 = 1 / 2;
          c1 = (if assigned (assignToTeam routing) \<and> assigned (assignToUser routing)
                then c0 + 3 / 10 else c0);
          c2 = (if truthy (field ticket ''ai_processed'') then c1 + 1 / 10 else c1)
      in (case js_gt n2s (field ticket ''ai_confidence'') (Num (Fin (4 / 5))) of
            Inl e \<Rightarrow> Inl e
          | Inr high \<Rightarrow> Inr (min 1 (if high then c2 + 1 / 10 else c2))))"

subsection \<open>The six steps of \<^verbatim>\<open>route\<close>\<close>

definition initial_routing :: RoutingDecision where
  "initial_routing =
     \<lparr> assignToUser = None, assignToTeam = None, setPriority = None, addTags = [],
       reason = [], confidence = 0 \<rparr>"

text \<open>Step 1. \<^verbatim>\<open>ruleMatch.addTags || []\<close> keeps every array, the empty one too.\<close>

definition apply_rule_match :: "RuleMatch option \<Rightarrow> RoutingDecision" where
  "apply_rule_match ruleMatch =
     (case ruleMatch of
        None \<Rightarrow> initial_routing
      | Some m \<Rightarrow>
          \<lparr> assignToUser = RuleMatch.assignToUser m,
            assignToTeam = RuleMatch.assignToTeam m,
            setPriority = RuleMatch.setPriority m,
            addTags = (case RuleMatch.addTags m of None \<Rightarrow> [] | Some tags \<Rightarrow> tags),
            reason = ''Matched routing rule: '' @ ruleName m,
            confidence = 9 / 10 \<rparr>)"

text \<open>Step 2.\<close>

definition route_by_category :: "(jsnum \<Rightarrow> string) \<Rightarrow> obj \<Rightarrow> Team list \<Rightarrow> RoutingDecision \<Rightarrow> js_error + RoutingDecision" where
  "route_by_category n2s ticket teams routing =
     (if \<not> assigned (assignToTeam routing) \<and> truthy (field ticket ''category'') then
        (case findTeamByCategory n2s (field ticket ''category'') teams of
           Inl e \<Rightarrow> Inl e
         | Inr None \<Rightarrow> Inr routing
         | Inr (Some teamByCategory) \<Rightarrow>
             Inr (routing \<lparr> assignToTeam := Some (Team.id teamByCategory),
                            reason := (if reason routing \<noteq> [] then reason routing
                                       else ''Routed to '' @ Team.name teamByCategory
                                            @ '' team based on category'') \<rparr>))
      else Inr routing)"

text \<open>Step 3. A missing first name prints as \<^verbatim>\<open>null\<close>.\<close>

definition assign_best_agent :: "(jsnum \<Rightarrow> string) \<Rightarrow> obj \<Rightarrow> Agent list \<Rightarrow> RoutingDecision \<Rightarrow> js_error + RoutingDecision" where
  "assign_best_agent n2s ticket agents routing =
     (if assigned (assignToTeam routing) \<and> \<not> assigned (assignToUser routing) then
        (case findBestAgentInTeam n2s (the (assignToTeam routing)) agents ticket of
           Inl e \<Rightarrow> Inl e
         | Inr None \<Rightarrow> Inr routing
         | Inr (Some bestAgent) \<Rightarrow>
             Inr (routing \<lparr> assignToUser := Some (Agent.id bestAgent),
                            reason := reason routing @ '' -> Assigned to ''
                              @ (case first_name bestAgent of None \<Rightarrow> ''null'' | Some n \<Rightarrow> n) \<rparr>))
      else Inr routing)"

text \<open>Step 4.\<close>

definition handle_escalation :: "(jsnum \<Rightarrow> string) \<Rightarrow> obj \<Rightarrow> Agent list \<Rightarrow> RoutingDecision \<Rightarrow> js_error + RoutingDecision" where
  "handle_escalation n2s ticket agents routing =
     (case shouldEscalate n2s ticket of
        Inl e \<Rightarrow> Inl e
      | Inr escalate \<Rightarrow>
          if escalate then
            let escalated = routing \<lparr> setPriority := Some ''urgent'',
                                      addTags := addTags routing @ [''escalated''] \<rparr>
            in (case findSeniorAgent agents (assignToTeam escalated) of
                  Inl e \<Rightarrow> Inl e
                | Inr None \<Rightarrow> Inr escalated
                | Inr (Some seniorAgent) \<Rightarrow>
                    Inr (escalated \<lparr> assignToUser := Some (Agent.id seniorAgent),
                                     reason := reason escalated @ '' (Escalated to senior agent)'' \<rparr>))
          else Inr routing)"

text \<open>Step 5.\<close>

definition load_balancing :: "Agent list \<Rightarrow> RoutingDecision \<Rightarrow> RoutingDecision" where
  "load_balancing agents routing =
     (if \<not> assigned (assignToUser routing) \<and> \<not> assigned (assignToTeam routing) then
        (case findLeastBusyAgent agents of
           None \<Rightarrow> routing
         | Some leastBusyAgent \<Rightarrow>
             routing \<lparr> assignToUser := Some (Agent.id leastBusyAgent),
                       reason := ''Assigned via load balancing'' \<rparr>)
      else routing)"

text \<open>
  Steps 1 to 3, and \<^verbatim>\<open>route\<close> itself. A result \<open>Inl e\<close> is an exception that leaves
  \<^verbatim>\<open>route\<close>.
\<close>

definition route_assignment :: "(jsnum \<Rightarrow> string) \<Rightarrow> obj \<Rightarrow> Agent list \<Rightarrow> Team list \<Rightarrow> Rule list \<Rightarrow> js_error + RoutingDecision" where
  "route_assignment n2s ticket agents teams rules =
     (case applyRoutingRules n2s ticket rules of
        Inl e \<Rightarrow> Inl e
      | Inr ruleMatch \<Rightarrow>
          (case route_by_category n2s ticket teams (apply_rule_match ruleMatch) of
             Inl e \<Rightarrow> Inl e
           | Inr routing \<Rightarrow> assign_best_agent n2s ticket agents routing))"

definition route :: "(jsnum \<Rightarrow> string) \<Rightarrow> obj \<Rightarrow> Agent list \<Rightarrow> Team list \<Rightarrow> Rule list \<Rightarrow> js_error + RoutingDecision" where
  "route n2s ticket agents teams rules =
     (case route_assignment n2s ticket agents teams rules of
        Inl e \<Rightarrow> Inl e
      | Inr routing3 \<Rightarrow>
          (case handle_escalation n2s ticket agents routing3 of
             Inl e \<Rightarrow> Inl e
           | Inr routing4 \<Rightarrow>
               let routing5 = load_balancing agents routing4 in
               (case calculateRoutingConfidence n2s routing5 ticket of
                  Inl e \<Rightarrow> Inl e
                | Inr c \<Rightarrow> Inr (routing5 \<lparr> confidence := c \<rparr>))))"

subsection \<open>Inputs on which \<^verbatim>\<open>route\<close> cannot throw\<close>

text \<open>
  \<^verbatim>\<open>route\<close> throws in three ways: a value that cannot be converted to a primitive meets
  a comparison, a template or a table lookup; a rule condition is \<^verbatim>\<open>null\<close>; or one of the
  four callbacks without an arrow is reached. The predicates below exclude each of them:
  the values of the ticket and the operands of the rule conditions can be converted, no
  condition is \<^verbatim>\<open>null\<close>, no team has skills and no agent has memberships.
\<close>

definition safe_ticket :: "obj \<Rightarrow> bool" where
  "safe_ticket ticket = list_all (\<lambda>kv. \<not> unprintable (snd kv)) ticket"

definition operands :: "jsval \<Rightarrow> jsval list" where
  "operands v = (case v of Obj kvs \<Rightarrow> map snd kvs | _ \<Rightarrow> [])"

definition safe_rule :: "Rule \<Rightarrow> bool" where
  "safe_rule rule =
     list_all (\<lambda>kv. snd kv \<noteq> Null \<and> list_all (\<lambda>x. \<not> unprintable x) (operands (snd kv)))
       (entries (conditions rule))"

definition no_skills :: "Team \<Rightarrow> bool" where
  "no_skills team = (Team.skills team = None \<or> Team.skills team = Some [])"

definition no_memberships :: "Agent \<Rightarrow> bool" where
  "no_memberships agent = (team_members agent = None)"

section \<open>The queue worker\<close>

text \<open>
  \<^verbatim>\<open>src/utils/queue-worker.js\<close>. A job is the record taken from the classification
  queue. An exception is an error object, of which the worker reads the message and the
  code. The worker's state is what it changes: its counter, the rows written through the
  database client, the two queues it pushes to, and the log.
\<close>

record Job =
  ticketId :: string
  tenantId :: string
  subject :: string
  body :: string

record Failure =
  message :: "string option"
  code :: "string option"

datatype log_entry =
    LogInfo string string
  | LogError string string "string option"

record Worker =
  running :: bool
  processingCount :: int
  classification_rows :: "(string \<times> ClassificationResult) list"
  ticket_updates :: "(string \<times> ClassificationResult) list"
  routing_queue :: "(string \<times> string) list"
  retry_queue :: "Job list"
  logged :: "log_entry list"

text \<open>
  What the awaited calls of one \<^verbatim>\<open>processJob\<close> do: the classification, the insert and
  the update through the database client, the push onto the routing queue and the push
  onto the retry queue. Each either succeeds or rejects with an error. \<open>auto_routing\<close> is
  the test \<^verbatim>\<open>process.env.ENABLE_AUTO_ROUTING === 'true'\<close>.
\<close>

record Effects =
  classified :: "Failure + ClassificationResult"
  insert_rejects :: "Failure option"
  update_rejects :: "Failure option"
  auto_routing :: bool
  routing_push_rejects :: "Failure option"
  retry_push_rejects :: "Failure option"

definition retryableCodes :: "string list" where
  "retryableCodes = [''ECONNRESET'', ''ETIMEDOUT'', ''ECONNREFUSED'', ''RATE_LIMITED'']"

text \<open>\<^verbatim>\<open>error.message?.includes(code) || error.code === code\<close> for some code of the list.\<close>

definition isRetryableError :: "Failure \<Rightarrow> bool" where
  "isRetryableError error =
     (\<exists>c \<in> set retryableCodes.
        (case message error of None \<Rightarrow> False | Some m \<Rightarrow> str_includes m c) \<or> code error = Some c)"

text \<open>
  The \<^verbatim>\<open>try\<close> block: the exception that ends it, if any, and the state reached.
\<close>

definition try_body :: "Effects \<Rightarrow> Job \<Rightarrow> Worker \<Rightarrow> Failure option \<times> Worker" where
  "try_body fx job w0 =
     (let w1 = w0 \<lparr> logged := logged w0 @ [LogInfo ''Processing classification job'' (ticketId job)] \<rparr> in
      case classified fx of
        Inl e \<Rightarrow> (Some e, w1)
      | Inr classification \<Rightarrow>
          (case insert_rejects fx of
             Some e \<Rightarrow> (Some e, w1)
           | None \<Rightarrow>
               let w2 = w1 \<lparr> classification_rows :=
                              classification_rows w1 @ [(ticketId job, classification)] \<rparr> in
               (case update_rejects fx of
                  Some e \<Rightarrow> (Some e, w2)
                | None \<Rightarrow>
                    let w3 = w2 \<lparr> ticket_updates :=
                                   ticket_updates w2 @ [(ticketId job, classification)] \<rparr> in
                    if auto_routing fx then
                      (case routing_push_rejects fx of
                         Some e \<Rightarrow> (Some e, w3)
                       | None \<Rightarrow>
                           (None, w3 \<lparr> routing_queue := (ticketId job, tenantId job) # routing_queue w3,
                                       logged := logged w3 @ [LogInfo ''Classification completed'' (ticketId job)] \<rparr>))
                    else
                      (None, w3 \<lparr> logged := logged w3 @ [LogInfo ''Classification completed'' (ticketId job)] \<rparr>))))"

text \<open>
  The \<^verbatim>\<open>catch\<close> block: it logs, and pushes the job onto the retry queue when the error is
  retryable. That push is awaited inside \<^verbatim>\<open>catch\<close>, so its own rejection leaves
  \<^verbatim>\<open>processJob\<close>.
\<close>

definition catch_block :: "Effects \<Rightarrow> Job \<Rightarrow> Failure \<Rightarrow> Worker \<Rightarrow> Failure option \<times> Worker" where
  "catch_block fx job error w =
     (let w1 = w \<lparr> logged := logged w @ [LogError ''Classification job failed'' (ticketId job) (message error)] \<rparr> in
      if isRetryableError error then
        (case retry_push_rejects fx of
           Some e \<Rightarrow> (Some e, w1)
         | None \<Rightarrow> (None, w1 \<lparr> retry_queue := job # retry_queue w1 \<rparr>))
      else (None, w1))"

text \<open>
  \<^verbatim>\<open>processJob\<close>: the first component is the exception that reaches \<^verbatim>\<open>processLoop\<close>,
  \<open>None\<close> when the call returns normally. The \<^verbatim>\<open>finally\<close> block runs on every path.
\<close>

definition processJob :: "Effects \<Rightarrow> Job \<Rightarrow> Worker \<Rightarrow> Failure option \<times> Worker" where
  "processJob fx job w =
     (let w0 = w \<lparr> processingCount := processingCount w + 1 \<rparr>;
          (thrown, w1) = try_body fx job w0;
          (escaped, w2) = (case thrown of
                             None \<Rightarrow> (None, w1)
                           | Some error \<Rightarrow> catch_block fx job error w1)
      in (escaped, w2 \<lparr> processingCount := processingCount w2 - 1 \<rparr>))"

section \<open>Scenario data\<close>

text \<open>
  The inputs at which the theorems below are instantiated. None of them prints a number,
  so any function can stand for \<^verbatim>\<open>Number::toString\<close> there.
\<close>

definition no_numbers_printed :: "jsnum \<Rightarrow> string" where
  "no_numbers_printed n = []"

text \<open>Scenario A of the specification: a billing question, one billing team, one agent in it.\<close>

definition ticket_A :: obj where
  "ticket_A =
     [(''category'', Str ''billing''), (''priority'', Str ''medium''),
      (''sentiment'', Str ''neutral''), (''subject'', Str ''invoice question''),
      (''body'', Str ''why was I charged twice'')]"

text \<open>Scenario B: the same ticket with an alarming body.\<close>

definition ticket_B :: obj where
  "ticket_B =
     [(''category'', Str ''billing''), (''priority'', Str ''medium''),
      (''sentiment'', Str ''neutral''), (''subject'', Str ''invoice question''),
      (''body'', Str ''why was I charged twice, this is FRAUD, get me a lawyer'')]"

definition team_T1 :: Team where
  "team_T1 = \<lparr> Team.id = ''T1'', Team.name = ''Billing'', Team.skills = Some [''billing''] \<rparr>"

definition agent_A1 :: Agent where
  "agent_A1 =
     \<lparr> Agent.id = ''A1'', first_name = Some ''Ann'', Agent.skills = Some [''billing''],
       team_members = Some [\<lparr> team_id = ''T1'', is_team_lead = False \<rparr>],
       role = Some ''agent'', current_ticket_count = Some 2, max_tickets = Some 10,
       Agent.is_active = True \<rparr>"


definition agent_L1 :: Agent where
  "agent_L1 =
     \<lparr> Agent.id = ''L1'', first_name = Some ''Lea'', Agent.skills = None,
       team_members = Some [\<lparr> team_id = ''T1'', is_team_lead = True \<rparr>],
       role = Some ''agent'', current_ticket_count = Some 9, max_tickets = Some 10,
       Agent.is_active = True \<rparr>"

definition agent_M1 :: Agent where
  "agent_M1 =
     \<lparr> Agent.id = ''M1'', first_name = Some ''Max'', Agent.skills = None,
       team_members = None,
       role = Some ''manager'', current_ticket_count = Some 1, max_tickets = Some 10,
       Agent.is_active = True \<rparr>"

text \<open>
  The ticket of scenario A after classification, a team without skills, and four active
  agents with the load ratios 1/2, 3/10, 1/4 and 1/4.
\<close>

definition ticket_C :: obj where
  "ticket_C =
     [(''category'', Str ''billing''), (''priority'', Str ''medium''),
      (''sentiment'', Str ''neutral''), (''subject'', Str ''invoice question''),
      (''body'', Str ''why was I charged twice''),
      (''ai_processed'', Bool True), (''ai_confidence'', Num (Fin (9 / 10)))]"

definition team_T0 :: Team where
  "team_T0 = \<lparr> Team.id = ''T0'', Team.name = ''General'', Team.skills = None \<rparr>"





text \<open>
  Rules that match every ticket: they differ in the team they assign, and the last one
  assigns a user as well.
\<close>

definition rule_any :: "string \<Rightarrow> string \<Rightarrow> int \<Rightarrow> Rule" where
  "rule_any n team p =
     \<lparr> Rule.name = n, conditions = Obj [], assign_to_team = Some team, assign_to_user = None,
       set_priority = None, add_tags = None, Rule.priority = Some p, Rule.is_active = True \<rparr>"

definition rule_direct :: "string \<Rightarrow> string \<Rightarrow> string \<Rightarrow> int \<Rightarrow> Rule" where
  "rule_direct n team user p =
     \<lparr> Rule.name = n, conditions = Obj [], assign_to_team = Some team,
       assign_to_user = Some user, set_priority = None, add_tags = None,
       Rule.priority = Some p, Rule.is_active = True \<rparr>"

text \<open>
  A job, an idle worker, and two runs of \<^verbatim>\<open>processJob\<close> in which the push onto the routing
  queue is refused: in the first the push onto the retry queue succeeds, in the second
  the queue server is down for both.
\<close>

definition job_1 :: Job where
  "job_1 = \<lparr> ticketId = ''t-1'', tenantId = ''acme'', subject = ''invoice question'',
             body = ''why was I charged twice'' \<rparr>"

definition idle_worker :: Worker where
  "idle_worker =
     \<lparr> running = True, processingCount = 0, classification_rows = [], ticket_updates = [],
       routing_queue = [], retry_queue = [], logged = [] \<rparr>"

definition connection_refused :: Failure where
  "connection_refused =
     \<lparr> message = Some ''connect ECONNREFUSED 127.0.0.1:6379'', code = Some ''ECONNREFUSED'' \<rparr>"

definition routing_push_refused :: Effects where
  "routing_push_refused =
     \<lparr> classified = Inr (fallback \<lparr> MODEL = ''gpt-4'', provider = ''openai'' \<rparr> 30),
       insert_rejects = None, update_rejects = None, auto_routing = True,
       routing_push_rejects = Some connection_refused, retry_push_rejects = None \<rparr>"

definition queue_server_down :: Effects where
  "queue_server_down =
     \<lparr> classified = Inr (fallback \<lparr> MODEL = ''gpt-4'', provider = ''openai'' \<rparr> 30),
       insert_rejects = None, update_rejects = None, auto_routing = True,
       routing_push_rejects = Some connection_refused,
       retry_push_rejects = Some connection_refused \<rparr>"

section \<open>Properties of the classification client\<close>

lemma clamp_field_cases:
  assumes "lo \<le> 1"
  shows "clamp_field lo v d = Inl TypeError \<or> clamp_field lo v d = Inr NaN
         \<or> (\<exists>x. clamp_field lo v d = Inr (Fin x) \<and> lo \<le> x \<and> x \<le> 1)"
proof (cases "unprintable (js_or v (Num (Fin d)))")
  case True
  then show ?thesis by (simp add: clamp_field_def to_number_def)
next
  case False
  then have c: "clamp_field lo v d
      = Inr (num_max (Fin lo) (num_min (Fin 1) (ToNumber (js_or v (Num (Fin d))))))"
    by (simp add: clamp_field_def to_number_def)
  show ?thesis
  proof (cases "ToNumber (js_or v (Num (Fin d)))")
    case NaN
    then show ?thesis by (simp add: c num_min_def num_max_def)
  next
    case NInf
    then show ?thesis using assms by (simp add: c num_min_def num_max_def)
  next
    case (Fin x)
    then show ?thesis using assms by (auto simp add: c num_min_def num_max_def)
  next
    case PInf
    then show ?thesis using assms by (auto simp add: c num_min_def num_max_def)
  qed
qed

text \<open>
  A field that the service sent as a number, or left out, is clamped into its interval:
  the numeric part of the result invariant holds for answers of the expected types.
\<close>

lemma clamp_field_number:
  assumes "lo \<le> d" and "d \<le> 1" and "(\<exists>n. v = Num n) \<or> \<not> truthy v"
  shows "\<exists>m. clamp_field lo v d = Inr m \<and> in_range lo 1 m"
proof (cases "truthy v")
  case False
  then show ?thesis
    using assms
    by (simp add: clamp_field_def to_number_def num_min_def num_max_def js_or_def in_range_def)
next
  case True
  with assms obtain n where v: "v = Num n" by auto
  with True show ?thesis
    using assms
    by (cases n)
      (auto simp add: clamp_field_def to_number_def num_min_def num_max_def js_or_def in_range_def)
qed

lemma enum_or_in_domain: "d \<in> set domain \<Longrightarrow> enum_or domain v d \<in> set domain"
  by (cases v) (simp_all add: enum_or_def)

lemma enum_or_unrecognized: "v \<notin> Str ` set domain \<Longrightarrow> enum_or domain v d = d"
  by (cases v) (auto simp add: enum_or_def)

text \<open>What a result of the \<^verbatim>\<open>try\<close> block is made of.\<close>

lemma normalize_Inr:
  assumes "normalize cfg t result = Inr c"
  obtains cat sc a b d where
    "get_prop result ''category'' = Inr cat"
    "clamp_field (- 1) (opt_prop (opt_prop result ''sentiment'') ''score'') 0 = Inr sc"
    "clamp_field 0 (opt_prop (opt_prop result ''confidence'') ''category'') (1/2) = Inr a"
    "clamp_field 0 (opt_prop (opt_prop result ''confidence'') ''priority'') (1/2) = Inr b"
    "clamp_field 0 (opt_prop (opt_prop result ''confidence'') ''sentiment'') (1/2) = Inr d"
    "ClassificationResult.category c = enum_or CATEGORIES cat ''general''"
    "ClassificationResult.priority c = enum_or PRIORITIES (opt_prop result ''priority'') ''medium''"
    "label (ClassificationResult.sentiment c)
       = enum_or SENTIMENTS (opt_prop (opt_prop result ''sentiment'') ''label'') ''neutral''"
    "score (ClassificationResult.sentiment c) = sc"
    "Confidence.category (ClassificationResult.confidence c) = a"
    "Confidence.priority (ClassificationResult.confidence c) = b"
    "Confidence.sentiment (ClassificationResult.confidence c) = d"
    "overallConfidence c = num_div_pos (num_add (num_add a b) d) 3"
  using assms by (auto simp add: normalize_def Let_def split: sum.splits)

text \<open>
  The enumerated fields of every result lie in their domains, on both paths and whatever
  the service answered.
\<close>

lemma classify_enums_in_domain:
  "\<exists>c. classify cfg startTime now up = Inr c \<and> ClassificationResult.category c \<in> set CATEGORIES
      \<and> ClassificationResult.priority c \<in> set PRIORITIES
      \<and> label (ClassificationResult.sentiment c) \<in> set SENTIMENTS"
proof (cases "try_block cfg startTime now up")
  case (Inl e)
  then show ?thesis
    by (simp add: classify_def fallback_def CATEGORIES_def PRIORITIES_def SENTIMENTS_def)
next
  case (Inr c)
  then obtain result where n: "normalize cfg (now - startTime) result = Inr c"
    by (cases up) (simp_all add: try_block_def)
  have "''general'' \<in> set CATEGORIES" "''medium'' \<in> set PRIORITIES"
    "''neutral'' \<in> set SENTIMENTS"
    by (simp_all add: CATEGORIES_def PRIORITIES_def SENTIMENTS_def)
  then have "ClassificationResult.category c \<in> set CATEGORIES"
    "ClassificationResult.priority c \<in> set PRIORITIES"
    "label (ClassificationResult.sentiment c) \<in> set SENTIMENTS"
    using n by (auto elim!: normalize_Inr intro!: enum_or_in_domain)
  with Inr show ?thesis by (simp add: classify_def)
qed

lemma mean_cases:
  assumes "a = NaN \<or> (\<exists>x. a = Fin x)" and "b = NaN \<or> (\<exists>x. b = Fin x)"
    and "c = NaN \<or> (\<exists>x. c = Fin x)"
  shows "(\<exists>x y z. a = Fin x \<and> b = Fin y \<and> c = Fin z
            \<and> num_div_pos (num_add (num_add a b) c) 3 = Fin ((x + y + z) / 3))
         \<or> ((a = NaN \<or> b = NaN \<or> c = NaN) \<and> num_div_pos (num_add (num_add a b) c) 3 = NaN)"
  using assms by auto

lemma mean_in_range:
  assumes "in_range 0 1 a" and "in_range 0 1 b" and "in_range 0 1 c"
  shows "in_range 0 1 (num_div_pos (num_add (num_add a b) c) 3)"
proof -
  from assms obtain x y z where "a = Fin x" "b = Fin y" "c = Fin z"
    and "0 \<le> x" "x \<le> 1" "0 \<le> y" "y \<le> 1" "0 \<le> z" "z \<le> 1"
    by (auto simp add: in_range_def split: jsnum.splits)
  then show ?thesis by (simp add: in_range_def)
qed

text \<open>
  When each of the four numeric fields of the answer is a number or is missing, the
  numbers of the result are in their intervals.
\<close>

lemma classify_numeric_answer_in_range:
  assumes "\<forall>k \<in> {''category'', ''priority'', ''sentiment''}.
             (\<exists>n. opt_prop (opt_prop result ''confidence'') k = Num n)
             \<or> \<not> truthy (opt_prop (opt_prop result ''confidence'') k)"
    and "(\<exists>n. opt_prop (opt_prop result ''sentiment'') ''score'' = Num n)
         \<or> \<not> truthy (opt_prop (opt_prop result ''sentiment'') ''score'')"
  shows "\<exists>c. classify cfg startTime now (Parsed result) = Inr c
      \<and> in_range 0 1 (Confidence.category (ClassificationResult.confidence c))
      \<and> in_range 0 1 (Confidence.priority (ClassificationResult.confidence c))
      \<and> in_range 0 1 (Confidence.sentiment (ClassificationResult.confidence c))
      \<and> in_range (- 1) 1 (score (ClassificationResult.sentiment c))
      \<and> in_range 0 1 (overallConfidence c)"
proof (cases "normalize cfg (now - startTime) result")
  case (Inl e)
  then show ?thesis
    by (simp add: classify_def try_block_def fallback_def in_range_def)
next
  case (Inr c)
  from Inr obtain sc a b d where
    f: "clamp_field (- 1) (opt_prop (opt_prop result ''sentiment'') ''score'') 0 = Inr sc"
    "clamp_field 0 (opt_prop (opt_prop result ''confidence'') ''category'') (1/2) = Inr a"
    "clamp_field 0 (opt_prop (opt_prop result ''confidence'') ''priority'') (1/2) = Inr b"
    "clamp_field 0 (opt_prop (opt_prop result ''confidence'') ''sentiment'') (1/2) = Inr d"
    and g: "score (ClassificationResult.sentiment c) = sc"
    "Confidence.category (ClassificationResult.confidence c) = a"
    "Confidence.priority (ClassificationResult.confidence c) = b"
    "Confidence.sentiment (ClassificationResult.confidence c) = d"
    "overallConfidence c = num_div_pos (num_add (num_add a b) d) 3"
    by (rule normalize_Inr)
  have "in_range (- 1) 1 sc"
    using clamp_field_number [of "- 1" 0 "opt_prop (opt_prop result ''sentiment'') ''score''"]
      assms(2) f(1) by auto
  moreover have "in_range 0 1 a"
    using clamp_field_number [of 0 "1/2" "opt_prop (opt_prop result ''confidence'') ''category''"]
      assms(1) f(2) by auto
  moreover have "in_range 0 1 b"
    using clamp_field_number [of 0 "1/2" "opt_prop (opt_prop result ''confidence'') ''priority''"]
      assms(1) f(3) by auto
  moreover have "in_range 0 1 d"
    using clamp_field_number [of 0 "1/2" "opt_prop (opt_prop result ''confidence'') ''sentiment''"]
      assms(1) f(4) by auto
  ultimately show ?thesis
    using Inr g by (simp add: classify_def try_block_def mean_in_range)
qed

text \<open>
  On both paths \<^verbatim>\<open>overallConfidence\<close> is computed from the three confidences of the same
  result: it is their mean as a real number when all three are finite, and NaN when one
  of them is NaN.
\<close>

lemma overallConfidence_cases:
  "\<exists>c. classify cfg startTime now up = Inr c \<and>
     ((\<exists>x y z. Confidence.category (ClassificationResult.confidence c) = Fin x \<and>
               Confidence.priority (ClassificationResult.confidence c) = Fin y \<and>
               Confidence.sentiment (ClassificationResult.confidence c) = Fin z \<and>
               overallConfidence c = Fin ((x + y + z) / 3))
      \<or> ((Confidence.category (ClassificationResult.confidence c) = NaN
           \<or> Confidence.priority (ClassificationResult.confidence c) = NaN
           \<or> Confidence.sentiment (ClassificationResult.confidence c) = NaN)
          \<and> overallConfidence c = NaN))"
proof (cases "try_block cfg startTime now up")
  case (Inl e)
  then show ?thesis by (simp add: classify_def fallback_def)
next
  case (Inr c)
  then obtain result where n: "normalize cfg (now - startTime) result = Inr c"
    by (cases up) (simp_all add: try_block_def)
  from n obtain a b d where
    f: "clamp_field 0 (opt_prop (opt_prop result ''confidence'') ''category'') (1/2) = Inr a"
    "clamp_field 0 (opt_prop (opt_prop result ''confidence'') ''priority'') (1/2) = Inr b"
    "clamp_field 0 (opt_prop (opt_prop result ''confidence'') ''sentiment'') (1/2) = Inr d"
    and g: "Confidence.category (ClassificationResult.confidence c) = a"
    "Confidence.priority (ClassificationResult.confidence c) = b"
    "Confidence.sentiment (ClassificationResult.confidence c) = d"
    "overallConfidence c = num_div_pos (num_add (num_add a b) d) 3"
    by (rule normalize_Inr)
  have "a = NaN \<or> (\<exists>x. a = Fin x)"
    using clamp_field_cases [of 0 "opt_prop (opt_prop result ''confidence'') ''category''" "1/2"] f(1)
    by auto
  moreover have "b = NaN \<or> (\<exists>x. b = Fin x)"
    using clamp_field_cases [of 0 "opt_prop (opt_prop result ''confidence'') ''priority''" "1/2"] f(2)
    by auto
  moreover have "d = NaN \<or> (\<exists>x. d = Fin x)"
    using clamp_field_cases [of 0 "opt_prop (opt_prop result ''confidence'') ''sentiment''" "1/2"] f(3)
    by auto
  ultimately show ?thesis
    using mean_cases [of a b d] Inr g by (simp add: classify_def)
qed

text \<open>
  Claim C2, evaluated where it fails. The service answers with well-formed JSON in which
  \<^verbatim>\<open>confidence.category\<close> is the word \<^verbatim>\<open>"high"\<close> instead of a number. The word is truthy,
  so \<^verbatim>\<open>|| 0.5\<close> keeps it; \<^verbatim>\<open>Math.min(1, "high")\<close> is NaN and so is \<^verbatim>\<open>Math.max(0, NaN)\<close>.
  The returned \<^verbatim>\<open>confidence.category\<close> and \<^verbatim>\<open>overallConfidence\<close> are NaN, outside the
  interval from 0 to 1 that the claim gives for every result.
\<close>

theorem classify_confidence_not_a_number:
  "classify \<lparr>MODEL = ''gpt-4'', provider = ''openai''\<rparr> 100 130
     (Parsed (Obj [(''category'', Str ''billing''), (''priority'', Str ''high''),
        (''sentiment'', Obj [(''label'', Str ''negative''), (''score'', Num (Fin (- 2 / 5)))]),
        (''confidence'', Obj [(''category'', Str ''high''), (''priority'', Num (Fin (9 / 10))),
           (''sentiment'', Num (Fin (4 / 5)))]),
        (''reasoning'', Str ''invoice'')]))
   = Inr \<lparr> ClassificationResult.category = ''billing'', ClassificationResult.priority = ''high'',
           ClassificationResult.sentiment = \<lparr> label = ''negative'', score = Fin (- 2 / 5) \<rparr>,
           ClassificationResult.confidence =
             \<lparr> Confidence.category = NaN, Confidence.priority = Fin (9 / 10),
                          Confidence.sentiment = Fin (4 / 5) \<rparr>,
           reasoning = Str ''invoice'', modelVersion = ''gpt-4'', modelProvider = ''openai'',
           processingTimeMs = 30, overallConfidence = NaN \<rparr>
   \<and> \<not> in_range 0 1 NaN"
  by (simp add: classify_def try_block_def normalize_def enum_or_def clamp_field_def js_or_def
      to_number_def num_min_def num_max_def in_range_def CATEGORIES_def PRIORITIES_def SENTIMENTS_def
      StringToNumber_def trim_def is_ws_def non_decimal_def unsigned_decimal_def mantissa_def
      digits1_def digit_val_def is_exp_mark_def)

text \<open>
  Claim C3, as the code has it. \<^verbatim>\<open>classify\<close> never raises: for every answer of the
  service it returns a result. Whenever the \<^verbatim>\<open>try\<close> block fails (the request rejects, the
  content does not parse, the parsed value is \<^verbatim>\<open>null\<close>, or the conversion of a numeric
  field to a number throws) the result is the fallback: the
  enumerated fields at their defaults general, medium and neutral, the three confidences
  and \<^verbatim>\<open>overallConfidence\<close> 0, \<^verbatim>\<open>processingTimeMs\<close> the time elapsed between the two clock
  readings, and \<^verbatim>\<open>reasoning\<close> the fixed text \<^verbatim>\<open>Classification failed\<close>, not the empty string.
\<close>

theorem classify_never_raises:
  "\<exists>c. classify cfg startTime now up = Inr c \<and>
     (\<forall>e. try_block cfg startTime now up = Inl e \<longrightarrow>
        ClassificationResult.category c = ''general'' \<and> ClassificationResult.priority c = ''medium'' \<and> label (ClassificationResult.sentiment c) = ''neutral''
        \<and> Confidence.category (ClassificationResult.confidence c) = Fin 0
        \<and> Confidence.priority (ClassificationResult.confidence c) = Fin 0
        \<and> Confidence.sentiment (ClassificationResult.confidence c) = Fin 0
        \<and> overallConfidence c = Fin 0
        \<and> reasoning c = Str ''Classification failed''
        \<and> processingTimeMs c = now - startTime)"
  by (cases "try_block cfg startTime now up") (simp_all add: classify_def fallback_def)

theorem classify_never_raises_witness:
  "try_block \<lparr>MODEL = ''gpt-4'', provider = ''openai''\<rparr> 100 130 (Parsed Null) = Inl TypeError
   \<and> (\<exists>c. classify \<lparr>MODEL = ''gpt-4'', provider = ''openai''\<rparr> 100 130 (Parsed Null) = Inr c
        \<and> ClassificationResult.category c = ''general'' \<and> overallConfidence c = Fin 0
        \<and> reasoning c = Str ''Classification failed'' \<and> processingTimeMs c = 30)"
proof -
  have f: "try_block \<lparr>MODEL = ''gpt-4'', provider = ''openai''\<rparr> 100 130 (Parsed Null) = Inl TypeError"
    by (simp add: try_block_def normalize_def)
  from classify_never_raises [of "\<lparr>MODEL = ''gpt-4'', provider = ''openai''\<rparr>" 100 130 "Parsed Null"]
  show ?thesis using f by auto
qed

text \<open>
  Claim C3 as stated asks for an empty \<^verbatim>\<open>reasoning\<close> on the fallback path. When the
  request is rejected the result carries the text \<^verbatim>\<open>Classification failed\<close> instead.
\<close>

theorem classify_fallback_reasoning_counterexample:
  "classify \<lparr>MODEL = ''gpt-4'', provider = ''openai''\<rparr> 100 130 Rejected
     = Inr (fallback \<lparr>MODEL = ''gpt-4'', provider = ''openai''\<rparr> 30)
   \<and> reasoning (fallback \<lparr>MODEL = ''gpt-4'', provider = ''openai''\<rparr> 30) = Str ''Classification failed''
   \<and> reasoning (fallback \<lparr>MODEL = ''gpt-4'', provider = ''openai''\<rparr> 30) \<noteq> Str []"
  by (simp add: classify_def try_block_def fallback_def)

text \<open>
  Claim C9, evaluated where it fails. The service answers with well-formed JSON in which
  \<^verbatim>\<open>confidence.sentiment\<close> is the word \<^verbatim>\<open>"certain"\<close>. The clamp lets the word through as
  NaN, the sum and the quotient are NaN, and \<^verbatim>\<open>overallConfidence\<close> is NaN. NaN is equal
  to no number within any tolerance, itself included, so \<^verbatim>\<open>overallConfidence\<close> does not
  equal the mean of the three confidences of this result.
\<close>

theorem overallConfidence_not_a_number:
  "classify \<lparr>MODEL = ''gpt-4'', provider = ''openai''\<rparr> 100 130
     (Parsed (Obj [(''category'', Str ''account''), (''priority'', Str ''low''),
        (''sentiment'', Obj [(''label'', Str ''positive''), (''score'', Num (Fin (1 / 2)))]),
        (''confidence'', Obj [(''category'', Num (Fin (9 / 10))), (''priority'', Num (Fin (7 / 10))),
           (''sentiment'', Str ''certain'')])]))
   = Inr \<lparr> ClassificationResult.category = ''account'', ClassificationResult.priority = ''low'',
           ClassificationResult.sentiment = \<lparr> label = ''positive'', score = Fin (1 / 2) \<rparr>,
           ClassificationResult.confidence =
             \<lparr> Confidence.category = Fin (9 / 10), Confidence.priority = Fin (7 / 10),
               Confidence.sentiment = NaN \<rparr>,
           reasoning = Str [], modelVersion = ''gpt-4'', modelProvider = ''openai'',
           processingTimeMs = 30, overallConfidence = NaN \<rparr>
   \<and> num_div_pos (num_add (num_add (Fin (9 / 10)) (Fin (7 / 10))) NaN) 3 = NaN
   \<and> \<not> within_tolerance (1 / 1000) NaN NaN"
  by (simp add: classify_def try_block_def normalize_def enum_or_def clamp_field_def js_or_def
      to_number_def num_min_def num_max_def within_tolerance_def CATEGORIES_def PRIORITIES_def
      SENTIMENTS_def StringToNumber_def trim_def is_ws_def non_decimal_def unsigned_decimal_def
      mantissa_def digits1_def digit_val_def is_exp_mark_def)

section \<open>Properties of the routing engine\<close>

subsection \<open>Strings and sorting\<close>

lemma starts_with_iff: "starts_with s k \<longleftrightarrow> (\<exists>post. s = k @ post)"
  by (induction s k rule: starts_with.induct) auto

lemma str_includes_iff: "str_includes s k \<longleftrightarrow> (\<exists>pre post. s = pre @ k @ post)"
proof (induction s)
  case Nil
  then show ?case by auto
next
  case (Cons c cs)
  show ?case
  proof
    assume "str_includes (c # cs) k"
    then consider "starts_with (c # cs) k" | "str_includes cs k" by auto
    then show "\<exists>pre post. c # cs = pre @ k @ post"
    proof cases
      case 1
      then obtain post where "c # cs = k @ post" by (auto simp add: starts_with_iff)
      then have "c # cs = [] @ k @ post" by simp
      then show ?thesis by blast
    next
      case 2
      with Cons obtain pre post where "cs = pre @ k @ post" by auto
      then have "c # cs = (c # pre) @ k @ post" by simp
      then show ?thesis by blast
    qed
  next
    assume "\<exists>pre post. c # cs = pre @ k @ post"
    then obtain pre post where e: "c # cs = pre @ k @ post" by auto
    show "str_includes (c # cs) k"
    proof (cases pre)
      case Nil
      with e have "starts_with (c # cs) k" by (auto simp add: starts_with_iff)
      then show ?thesis by simp
    next
      case (Cons p ps)
      with e have "cs = ps @ k @ post" by simp
      with Cons.IH have "str_includes cs k" by auto
      then show ?thesis by simp
    qed
  qed
qed

lemma sort_key_Cons_ex:
  assumes "xs \<noteq> []"
  obtains z zs where "sort_key f xs = z # zs"
proof -
  have "length (sort_key f xs) = length xs" by simp
  with assms have "sort_key f xs \<noteq> []" by (metis length_0_conv)
  then show ?thesis using that by (cases "sort_key f xs") auto
qed

text \<open>The head of a stable sort is a least element, and the first of the least ones.\<close>

lemma hd_sort_key_min:
  assumes "xs \<noteq> []"
  shows "hd (sort_key f xs) \<in> set xs \<and> (\<forall>y \<in> set xs. f (hd (sort_key f xs)) \<le> f y)"
proof -
  from assms obtain z zs where s: "sort_key f xs = z # zs" by (rule sort_key_Cons_ex)
  have "sorted (map f (sort_key f xs))" by (rule sorted_sort_key)
  then have "sorted (map f (z # zs))" by (simp only: s)
  then have le: "\<forall>y \<in> set (z # zs). f z \<le> f y" by auto
  have "set (sort_key f xs) = set xs" by (rule set_sort)
  then have st: "set (z # zs) = set xs" by (simp only: s)
  have "z \<in> set xs" using st by auto
  moreover have "\<forall>y \<in> set xs. f z \<le> f y" using le st by blast
  ultimately show ?thesis by (simp only: s list.sel)
qed




subsection \<open>When the helpers return\<close>

lemma field_printable:
  assumes "list_all (\<lambda>kv. \<not> unprintable (snd kv)) kvs"
  shows "\<not> unprintable (field kvs k)"
proof (cases "map_of kvs k")
  case None
  then show ?thesis by (simp add: field_def)
next
  case (Some v)
  then have "(k, v) \<in> set kvs" by (rule map_of_SomeD)
  with assms have "\<not> unprintable v" by (auto simp add: list_all_iff)
  with Some show ?thesis by (simp add: field_def)
qed

lemma js_less_returns:
  assumes "\<not> unprintable a" and "\<not> unprintable b"
  shows "\<exists>r. js_less n2s a b = Inr r"
  using assms by (simp add: js_less_def ToPrimitive_def)

lemma comparisons_return:
  assumes "\<not> unprintable a" and "\<not> unprintable b"
  shows "\<exists>r. js_lt n2s a b = Inr r" "\<exists>r. js_gt n2s a b = Inr r"
    "\<exists>r. js_le n2s a b = Inr r" "\<exists>r. js_ge n2s a b = Inr r"
  using js_less_returns [OF assms, of n2s] js_less_returns [OF assms(2) assms(1), of n2s]
  by (auto simp add: js_lt_def js_gt_def js_le_def js_ge_def)

lemma guard_returns:
  assumes "\<exists>b. test = Inr b" and "\<exists>b. rest = Inr b"
  shows "\<exists>b. guard operand test rest = Inr b"
  using assms by (auto simp add: guard_def)

lemma range_checks_return:
  assumes tv: "\<not> unprintable tv" and ops: "list_all (\<lambda>kv. \<not> unprintable (snd kv)) kvs"
    and last: "\<exists>b. rest = Inr b"
  shows "\<exists>b. guard (field kvs ''$gt'') (js_gt n2s tv (field kvs ''$gt''))
         (guard (field kvs ''$lt'') (js_lt n2s tv (field kvs ''$lt''))
         (guard (field kvs ''$gte'') (js_ge n2s tv (field kvs ''$gte''))
         (guard (field kvs ''$lte'') (js_le n2s tv (field kvs ''$lte'')) rest))) = Inr b"
proof -
  have p: "\<not> unprintable (field kvs k)" for k using ops by (rule field_printable)
  show ?thesis
    by (intro guard_returns comparisons_return tv p last)
qed

lemma match_condition_returns:
  assumes "v \<noteq> Null" and "\<not> unprintable tv"
    and "list_all (\<lambda>x. \<not> unprintable x) (operands v)"
  shows "\<exists>b. match_condition n2s tv v = Inr b"
proof (cases v)
  case (Obj kvs)
  with assms(3) have "list_all (\<lambda>kv. \<not> unprintable (snd kv)) kvs"
    by (simp add: operands_def list_all_iff)
  from range_checks_return [OF assms(2) this]
  show ?thesis unfolding Obj match_condition_def by simp
qed (use assms in \<open>auto simp add: match_condition_def\<close>)

lemma match_inherited_returns:
  assumes "v \<noteq> Null" and "list_all (\<lambda>x. \<not> unprintable x) (operands v)"
  shows "\<exists>b. match_inherited n2s text v = Inr b"
proof (cases v)
  case (Obj kvs)
  with assms(2) have "list_all (\<lambda>kv. \<not> unprintable (snd kv)) kvs"
    by (simp add: operands_def list_all_iff)
  moreover have "\<not> unprintable (Str text)" by simp
  ultimately have "\<exists>b. guard (field kvs ''$gt'') (js_gt n2s (Str text) (field kvs ''$gt''))
         (guard (field kvs ''$lt'') (js_lt n2s (Str text) (field kvs ''$lt''))
         (guard (field kvs ''$gte'') (js_ge n2s (Str text) (field kvs ''$gte''))
         (guard (field kvs ''$lte'') (js_le n2s (Str text) (field kvs ''$lte'')) (Inr True)))) = Inr b"
    by (intro range_checks_return) auto
  then show ?thesis unfolding Obj match_inherited_def by simp
qed (use assms in \<open>auto simp add: match_inherited_def\<close>)

lemma lookup_printable:
  assumes "safe_ticket ticket" and "table_lookup ticket key = Own tv"
  shows "\<not> unprintable tv"
proof -
  from assms(2) have "map_of ticket key = Some tv"
    by (auto simp add: table_lookup_def split: option.splits if_splits)
  then have "(key, tv) \<in> set ticket" by (rule map_of_SomeD)
  with assms(1) show ?thesis by (auto simp add: safe_ticket_def list_all_iff)
qed

lemma match_entries_returns:
  assumes "safe_ticket ticket"
    and "list_all (\<lambda>kv. snd kv \<noteq> Null \<and> list_all (\<lambda>x. \<not> unprintable x) (operands (snd kv))) es"
  shows "\<exists>b. match_entries n2s ticket es = Inr b"
  using assms(2)
proof (induction es)
  case Nil
  have "match_entries n2s ticket [] = Inr True" by simp
  then show ?case by blast
next
  case (Cons kv es)
  obtain k v where kv: "kv = (k, v)" by (cases kv)
  with Cons.prems have v: "v \<noteq> Null" "list_all (\<lambda>x. \<not> unprintable x) (operands v)" by simp_all
  have "\<exists>b. (case table_lookup ticket k of
              Own ticketValue \<Rightarrow> match_condition n2s ticketValue v
            | Absent \<Rightarrow> match_condition n2s Undefined v
            | Inherited \<Rightarrow> match_inherited n2s (member_text k) v) = Inr b"
  proof (cases "table_lookup ticket k")
    case (Own tv)
    with assms(1) have "\<not> unprintable tv" by (rule lookup_printable)
    with v Own show ?thesis using match_condition_returns by simp
  next
    case Inherited
    with v show ?thesis using match_inherited_returns by simp
  next
    case Absent
    have "\<not> unprintable Undefined" by simp
    with v Absent show ?thesis using match_condition_returns by simp
  qed
  moreover from Cons obtain b' where "match_entries n2s ticket es = Inr b'" by auto
  ultimately show ?case using kv by auto
qed

lemma matchesRule_returns:
  assumes "safe_ticket ticket" and "safe_rule rule"
  shows "\<exists>b. matchesRule n2s ticket (conditions rule) = Inr b"
proof (cases "truthy (conditions rule)")
  case True
  from assms(2) match_entries_returns [OF assms(1)]
  obtain b where "match_entries n2s ticket (entries (conditions rule)) = Inr b"
    unfolding safe_rule_def by blast
  with True show ?thesis by (auto simp add: matchesRule_def)
next
  case False
  then have "matchesRule n2s ticket (conditions rule) = Inr False" by (simp add: matchesRule_def)
  then show ?thesis by blast
qed

lemma first_match_returns:
  assumes "safe_ticket ticket"
  shows "list_all safe_rule rs \<Longrightarrow> \<exists>m. first_match n2s ticket rs = Inr m"
proof (induction rs)
  case Nil
  then show ?case by simp
next
  case (Cons r rs)
  from Cons.prems have "safe_rule r" by simp
  then obtain b where "matchesRule n2s ticket (conditions r) = Inr b"
    using matchesRule_returns [OF assms] by blast
  moreover from Cons obtain m where "first_match n2s ticket rs = Inr m" by auto
  ultimately show ?case by auto
qed

lemma applyRoutingRules_returns:
  assumes "safe_ticket ticket" and "list_all safe_rule rules"
  shows "\<exists>m. applyRoutingRules n2s ticket rules = Inr m"
proof -
  have "set (sortedRules rules) = set rules" by (simp add: sortedRules_def)
  with assms(2) have "list_all safe_rule (sortedRules rules)" by (simp add: list_all_iff)
  from first_match_returns [OF assms(1) this] show ?thesis by (simp add: applyRoutingRules_def)
qed

lemma find_team_no_skills:
  "list_all no_skills teams \<Longrightarrow> find_team relevantSkills teams = Inr None"
  by (induction teams) (auto simp add: no_skills_def)

lemma findTeamByCategory_returns:
  assumes "\<not> unprintable cat" and "list_all no_skills teams"
  shows "\<exists>t. findTeamByCategory n2s cat teams = Inr t"
  using assms by (simp add: findTeamByCategory_def to_string_def find_team_no_skills Let_def)

lemma no_team_agents:
  "list_all no_memberships agents \<Longrightarrow> filter (in_team teamId) agents = []"
  by (induction agents) (auto simp add: no_memberships_def in_team_def)

lemma findBestAgentInTeam_no_memberships:
  "list_all no_memberships agents \<Longrightarrow> findBestAgentInTeam n2s teamId agents ticket = Inr None"
  by (simp add: findBestAgentInTeam_def no_team_agents)

lemma leads_no_memberships: "list_all no_memberships agents \<Longrightarrow> leads teamId agents = Inr []"
  by (induction agents) (auto simp add: no_memberships_def)

lemma findSeniorAgent_no_memberships:
  assumes "list_all no_memberships agents"
  shows "findSeniorAgent agents teamId
           = Inr (if filter (\<lambda>a. role a = Some ''manager'') agents \<noteq> []
                  then findLeastBusyAgent (filter (\<lambda>a. role a = Some ''manager'') agents)
                  else None)"
  using assms by (cases "agents = []") (simp_all add: findSeniorAgent_def leads_no_memberships Let_def)

lemma shouldEscalate_returns:
  assumes "safe_ticket ticket"
  shows "\<exists>b. shouldEscalate n2s ticket = Inr b"
proof -
  have p: "\<not> unprintable (field ticket k)" for k
    using assms unfolding safe_ticket_def by (rule field_printable)
  have "\<not> unprintable (Num (Fin (- 1 / 2)))" by simp
  with p obtain r where "js_lt n2s (field ticket ''sentiment_score'') (Num (Fin (- 1 / 2))) = Inr r"
    using comparisons_return(1) by blast
  moreover have "\<exists>t. ticket_text n2s ticket = Inr t"
    using p by (simp add: ticket_text_def to_string_def)
  ultimately show ?thesis by (auto simp add: shouldEscalate_def)
qed

lemma calculateRoutingConfidence_returns:
  assumes "safe_ticket ticket"
  shows "\<exists>c. calculateRoutingConfidence n2s routing ticket = Inr c"
proof -
  have "\<not> unprintable (field ticket ''ai_confidence'')"
    using assms unfolding safe_ticket_def by (rule field_printable)
  moreover have "\<not> unprintable (Num (Fin (4 / 5)))" by simp
  ultimately obtain r where "js_gt n2s (field ticket ''ai_confidence'') (Num (Fin (4 / 5))) = Inr r"
    using comparisons_return(2) by blast
  then show ?thesis by (simp add: calculateRoutingConfidence_def Let_def)
qed

text \<open>
  \<^verbatim>\<open>route\<close> returns a decision on every input that keeps clear of the three ways to
  throw.
\<close>

lemma route_assignment_returns:
  assumes "safe_ticket ticket" and "list_all safe_rule rules" and "list_all no_skills teams"
    and "list_all no_memberships agents"
  shows "\<exists>r. route_assignment n2s ticket agents teams rules = Inr r"
proof -
  obtain m where m: "applyRoutingRules n2s ticket rules = Inr m"
    using applyRoutingRules_returns [OF assms(1,2)] by blast
  have "\<not> unprintable (field ticket ''category'')"
    using assms(1) unfolding safe_ticket_def by (rule field_printable)
  then obtain t where "findTeamByCategory n2s (field ticket ''category'') teams = Inr t"
    using findTeamByCategory_returns [OF _ assms(3)] by blast
  then have "\<exists>r2. route_by_category n2s ticket teams (apply_rule_match m) = Inr r2"
    by (cases t) (auto simp add: route_by_category_def)
  then obtain r2 where r2: "route_by_category n2s ticket teams (apply_rule_match m) = Inr r2"
    by blast
  have "\<exists>r. assign_best_agent n2s ticket agents r2 = Inr r"
    by (simp add: assign_best_agent_def findBestAgentInTeam_no_memberships [OF assms(4)])
  with m r2 show ?thesis by (simp add: route_assignment_def)
qed

lemma handle_escalation_returns:
  assumes "safe_ticket ticket" and "list_all no_memberships agents"
  shows "\<exists>r. handle_escalation n2s ticket agents routing = Inr r"
proof -
  obtain b where "shouldEscalate n2s ticket = Inr b"
    using shouldEscalate_returns [OF assms(1)] by blast
  then show ?thesis
    by (simp add: handle_escalation_def Let_def findSeniorAgent_no_memberships [OF assms(2)]
        split: option.splits)
qed

lemma route_returns:
  assumes "safe_ticket ticket" and "list_all safe_rule rules" and "list_all no_skills teams"
    and "list_all no_memberships agents"
  shows "\<exists>d. route n2s ticket agents teams rules = Inr d"
proof -
  obtain r3 where r3: "route_assignment n2s ticket agents teams rules = Inr r3"
    using route_assignment_returns [OF assms] by blast
  obtain r4 where r4: "handle_escalation n2s ticket agents r3 = Inr r4"
    using handle_escalation_returns [OF assms(1,4)] by blast
  obtain c where "calculateRoutingConfidence n2s (load_balancing agents r4) ticket = Inr c"
    using calculateRoutingConfidence_returns [OF assms(1)] by blast
  with r3 r4 show ?thesis by (simp add: route_def Let_def)
qed

text \<open>What \<^verbatim>\<open>route\<close> returns is built from the result of steps 1 to 3 by steps 4 to 6.\<close>

lemma route_Inr:
  assumes "route n2s ticket agents teams rules = Inr d"
  obtains r3 r4 c where "route_assignment n2s ticket agents teams rules = Inr r3"
    and "handle_escalation n2s ticket agents r3 = Inr r4"
    and "calculateRoutingConfidence n2s (load_balancing agents r4) ticket = Inr c"
    and "d = (load_balancing agents r4) \<lparr> confidence := c \<rparr>"
  using assms by (auto simp add: route_def Let_def split: sum.splits)

text \<open>
  What the four callbacks without an arrow do to the helpers: step 3 never finds an agent,
  and the search for a senior agent throws as soon as an agent has memberships.
\<close>

lemma agent_score_team_agent:
  assumes "in_team teamId agent"
  shows "\<exists>e. agent_score n2s teamId ticket agent = Inl e"
proof -
  from assms obtain tms where "team_members agent = Some tms"
    by (cases "team_members agent") (auto simp add: in_team_def)
  then have "isTeamLead teamId agent = Inl ReferenceError" by (simp add: isTeamLead_def)
  then show ?thesis by (cases "skill_score n2s ticket agent") (simp_all add: agent_score_def)
qed

lemma findBestAgentInTeam_never_picks:
  "findBestAgentInTeam n2s teamId agents ticket \<noteq> Inr (Some a)"
proof (cases "filter (in_team teamId) agents")
  case Nil
  then show ?thesis by (simp add: findBestAgentInTeam_def)
next
  case (Cons x xs)
  then have "x \<in> set (filter (in_team teamId) agents)" by simp
  then have "in_team teamId x" by simp
  then obtain e where "agent_score n2s teamId ticket x = Inl e"
    using agent_score_team_agent by blast
  then have "score_agents n2s teamId ticket (x # xs) = Inl e" by simp
  with Cons show ?thesis by (auto simp add: findBestAgentInTeam_def)
qed

lemma leads_with_memberships:
  "\<exists>agent \<in> set agents. team_members agent \<noteq> None \<Longrightarrow> leads teamId agents = Inl ReferenceError"
  by (induction agents) (auto split: option.splits)

lemma findSeniorAgent_with_memberships:
  assumes "\<exists>agent \<in> set agents. team_members agent \<noteq> None"
  shows "findSeniorAgent agents teamId = Inl ReferenceError"
proof -
  from assms have "agents \<noteq> []" by auto
  with leads_with_memberships [OF assms] show ?thesis by (simp add: findSeniorAgent_def)
qed
subsection \<open>Escalation\<close>


lemma js_gt_numbers: "js_gt n2s (Num (Fin x)) (Num (Fin y)) = Inr (y < x)"
  by (simp add: js_gt_def js_less_def ToPrimitive_def)









subsection \<open>Confidence\<close>

lemma calculateRoutingConfidence_Inr:
  assumes "calculateRoutingConfidence n2s routing ticket = Inr c"
  obtains high where "js_gt n2s (field ticket ''ai_confidence'') (Num (Fin (4 / 5))) = Inr high"
    and "c = min 1 (1 / 2
                 + (if assigned (assignToTeam routing) \<and> assigned (assignToUser routing)
                    then 3 / 10 else 0)
                 + (if truthy (field ticket ''ai_processed'') then 1 / 10 else 0)
                 + (if high then 1 / 10 else 0))"
  using assms
  by (cases "js_gt n2s (field ticket ''ai_confidence'') (Num (Fin (4 / 5)))")
     (auto simp add: calculateRoutingConfidence_def Let_def)

lemma route_confidence:
  assumes "route n2s ticket agents teams rules = Inr d"
  obtains high where "js_gt n2s (field ticket ''ai_confidence'') (Num (Fin (4 / 5))) = Inr high"
    and "confidence d = min 1 (1 / 2
                 + (if assigned (assignToTeam d) \<and> assigned (assignToUser d) then 3 / 10 else 0)
                 + (if truthy (field ticket ''ai_processed'') then 1 / 10 else 0)
                 + (if high then 1 / 10 else 0))"
proof -
  from assms obtain r3 r4 c where
    c: "calculateRoutingConfidence n2s (load_balancing agents r4) ticket = Inr c"
    and d: "d = (load_balancing agents r4) \<lparr> confidence := c \<rparr>"
    by (rule route_Inr)
  from c obtain high where
    h: "js_gt n2s (field ticket ''ai_confidence'') (Num (Fin (4 / 5))) = Inr high"
    and "c = min 1 (1 / 2
                 + (if assigned (assignToTeam (load_balancing agents r4))
                       \<and> assigned (assignToUser (load_balancing agents r4))
                    then 3 / 10 else 0)
                 + (if truthy (field ticket ''ai_processed'') then 1 / 10 else 0)
                 + (if high then 1 / 10 else 0))"
    by (rule calculateRoutingConfidence_Inr)
  then have "confidence d = min 1 (1 / 2
                 + (if assigned (assignToTeam d) \<and> assigned (assignToUser d) then 3 / 10 else 0)
                 + (if truthy (field ticket ''ai_processed'') then 1 / 10 else 0)
                 + (if high then 1 / 10 else 0))"
    by (simp add: d)
  with h show ?thesis by (rule that)
qed

text \<open>
  Claim C7. A matching rule sets the confidence to 0.9 in step 1. The confidence of every
  decision that \<^verbatim>\<open>route\<close> returns is nevertheless the heuristic of step 6 applied to the
  decision's own final assignment: 0.5, plus 0.3 when both a team and a user are assigned,
  plus 0.1 when \<^verbatim>\<open>ticket.ai_processed\<close> is truthy, plus 0.1 when \<^verbatim>\<open>ticket.ai_confidence > 0.8\<close>,
  capped at 1. The value of step 1 has no part in it. For a ticket whose \<^verbatim>\<open>ai_processed\<close> is
  the boolean \<^verbatim>\<open>p\<close> and whose \<^verbatim>\<open>ai_confidence\<close> is the number \<^verbatim>\<open>x\<close> the two last terms are
  0.1 when \<^verbatim>\<open>p\<close> is true and 0.1 when \<^verbatim>\<open>0.8 < x\<close>; a team or a user is assigned when the
  field is a string that is not empty; when the ticket has neither field both terms are 0.
  \<^verbatim>\<open>route\<close> returns a decision on the inputs described for claim C1.
\<close>

theorem final_confidence_is_heuristic:
  "confidence (apply_rule_match (Some m)) = 9 / 10
   \<and> (\<forall>d. route n2s ticket agents teams rules = Inr d \<longrightarrow>
        (\<exists>high. js_gt n2s (field ticket ''ai_confidence'') (Num (Fin (4 / 5))) = Inr high
           \<and> confidence d =
               min 1 (1 / 2
                 + (if assigned (assignToTeam d) \<and> assigned (assignToUser d) then 3 / 10 else 0)
                 + (if truthy (field ticket ''ai_processed'') then 1 / 10 else 0)
                 + (if high then 1 / 10 else 0))))
   \<and> (\<forall>d p x. route n2s ticket agents teams rules = Inr d
          \<and> field ticket ''ai_processed'' = Bool p
          \<and> field ticket ''ai_confidence'' = Num (Fin x) \<longrightarrow>
        confidence d =
          min 1 (1 / 2
                 + (if (\<exists>t. assignToTeam d = Some t \<and> t \<noteq> [])
                       \<and> (\<exists>u. assignToUser d = Some u \<and> u \<noteq> []) then 3 / 10 else 0)
                 + (if p then 1 / 10 else 0)
                 + (if 4 / 5 < x then 1 / 10 else 0)))
   \<and> (\<forall>d. route n2s ticket agents teams rules = Inr d
          \<and> field ticket ''ai_processed'' = Undefined
          \<and> field ticket ''ai_confidence'' = Undefined \<longrightarrow>
        confidence d =
          (if (\<exists>t. assignToTeam d = Some t \<and> t \<noteq> [])
              \<and> (\<exists>u. assignToUser d = Some u \<and> u \<noteq> []) then 4 / 5 else 1 / 2))
   \<and> (safe_ticket ticket \<and> list_all safe_rule rules \<and> list_all no_skills teams
        \<and> list_all no_memberships agents \<longrightarrow>
        (\<exists>d. route n2s ticket agents teams rules = Inr d))"
proof -
  have a: "assigned s = (\<exists>v. s = Some v \<and> v \<noteq> [])" for s
    by (cases s) (simp_all add: assigned_def)
  have "confidence (apply_rule_match (Some m)) = 9 / 10"
    by (simp add: apply_rule_match_def)
  moreover have "\<exists>high. js_gt n2s (field ticket ''ai_confidence'') (Num (Fin (4 / 5))) = Inr high
           \<and> confidence d =
               min 1 (1 / 2
                 + (if assigned (assignToTeam d) \<and> assigned (assignToUser d) then 3 / 10 else 0)
                 + (if truthy (field ticket ''ai_processed'') then 1 / 10 else 0)
                 + (if high then 1 / 10 else 0))"
    if "route n2s ticket agents teams rules = Inr d" for d
    using that by (rule route_confidence) blast
  moreover have "confidence d =
          min 1 (1 / 2
                 + (if (\<exists>t. assignToTeam d = Some t \<and> t \<noteq> [])
                       \<and> (\<exists>u. assignToUser d = Some u \<and> u \<noteq> []) then 3 / 10 else 0)
                 + (if p then 1 / 10 else 0)
                 + (if 4 / 5 < x then 1 / 10 else 0))"
    if "route n2s ticket agents teams rules = Inr d \<and> field ticket ''ai_processed'' = Bool p
          \<and> field ticket ''ai_confidence'' = Num (Fin x)" for d p x
  proof -
    from that have r: "route n2s ticket agents teams rules = Inr d"
      and p: "field ticket ''ai_processed'' = Bool p"
      and x: "field ticket ''ai_confidence'' = Num (Fin x)" by blast+
    from r obtain high where
      "js_gt n2s (field ticket ''ai_confidence'') (Num (Fin (4 / 5))) = Inr high"
      and c: "confidence d = min 1 (1 / 2
                 + (if assigned (assignToTeam d) \<and> assigned (assignToUser d) then 3 / 10 else 0)
                 + (if truthy (field ticket ''ai_processed'') then 1 / 10 else 0)
                 + (if high then 1 / 10 else 0))"
      by (rule route_confidence)
    then have "high = (4 / 5 < x)" by (simp add: x js_gt_numbers)
    with c show ?thesis by (simp only: a p truthy.simps)
  qed
  moreover have "confidence d =
          (if (\<exists>t. assignToTeam d = Some t \<and> t \<noteq> [])
              \<and> (\<exists>u. assignToUser d = Some u \<and> u \<noteq> []) then 4 / 5 else 1 / 2)"
    if "route n2s ticket agents teams rules = Inr d \<and> field ticket ''ai_processed'' = Undefined
          \<and> field ticket ''ai_confidence'' = Undefined" for d
  proof -
    from that have r: "route n2s ticket agents teams rules = Inr d"
      and p: "field ticket ''ai_processed'' = Undefined"
      and x: "field ticket ''ai_confidence'' = Undefined" by blast+
    from r obtain high where
      h: "js_gt n2s (field ticket ''ai_confidence'') (Num (Fin (4 / 5))) = Inr high"
      and c: "confidence d = min 1 (1 / 2
                 + (if assigned (assignToTeam d) \<and> assigned (assignToUser d) then 3 / 10 else 0)
                 + (if truthy (field ticket ''ai_processed'') then 1 / 10 else 0)
                 + (if high then 1 / 10 else 0))"
      by (rule route_confidence)
    from h have "\<not> high" by (simp add: x js_gt_def js_less_def ToPrimitive_def)
    with c show ?thesis by (simp add: a p)
  qed
  moreover have "\<exists>d. route n2s ticket agents teams rules = Inr d"
    if "safe_ticket ticket \<and> list_all safe_rule rules \<and> list_all no_skills teams
        \<and> list_all no_memberships agents"
    using that route_returns by blast
  ultimately show ?thesis by blast
qed

theorem final_confidence_is_heuristic_witness:
  "(\<exists>d. route no_numbers_printed ticket_C [agent_A1] [team_T1] [rule_direct ''vip'' ''T1'' ''A1'' 5]
          = Inr d
        \<and> reason d = ''Matched routing rule: vip''
        \<and> assignToTeam d = Some ''T1'' \<and> assignToUser d = Some ''A1''
        \<and> confidence d = min 1 (1 / 2 + 3 / 10 + 1 / 10 + 1 / 10)
        \<and> confidence d = 1 \<and> confidence d \<noteq> 9 / 10)
   \<and> (\<exists>d. route no_numbers_printed ticket_A [agent_A1] [team_T1] [rule_direct ''vip'' ''T1'' ''A1'' 5]
          = Inr d
        \<and> reason d = ''Matched routing rule: vip''
        \<and> confidence d = 4 / 5 \<and> confidence d \<noteq> 9 / 10)
   \<and> safe_ticket ticket_C \<and> no_skills team_T0 \<and> no_memberships agent_M1
   \<and> (\<exists>d. route no_numbers_printed ticket_C [agent_M1] [team_T0] [] = Inr d
        \<and> confidence d = min 1 (1 / 2 + 0 + 1 / 10 + 1 / 10) \<and> confidence d = 7 / 10)"
proof -
  let ?rules = "[rule_direct ''vip'' ''T1'' ''A1'' 5]"
  let ?d1 = "\<lparr> assignToUser = Some ''A1'', assignToTeam = Some ''T1'', setPriority = None,
               addTags = [], reason = ''Matched routing rule: vip'', confidence = 1 \<rparr>"
  let ?d2 = "\<lparr> assignToUser = Some ''A1'', assignToTeam = Some ''T1'', setPriority = None,
               addTags = [], reason = ''Matched routing rule: vip'', confidence = 4 / 5 \<rparr>"
  have pC: "field ticket_C ''ai_processed'' = Bool True"
    and xC: "field ticket_C ''ai_confidence'' = Num (Fin (9 / 10))"
    by (simp_all add: ticket_C_def field_def)
  have pA: "field ticket_A ''ai_processed'' = Undefined"
    and xA: "field ticket_A ''ai_confidence'' = Undefined"
    by (simp_all add: ticket_A_def field_def)
  have r1: "route no_numbers_printed ticket_C [agent_A1] [team_T1] ?rules = Inr ?d1"
    by code_simp
  have r2: "route no_numbers_printed ticket_A [agent_A1] [team_T1] ?rules = Inr ?d2"
    by code_simp
  from final_confidence_is_heuristic [of _ no_numbers_printed ticket_C "[agent_A1]" "[team_T1]" ?rules]
    r1 pC xC
  have "confidence ?d1 =
          min 1 (1 / 2
                 + (if (\<exists>t. assignToTeam ?d1 = Some t \<and> t \<noteq> [])
                       \<and> (\<exists>u. assignToUser ?d1 = Some u \<and> u \<noteq> []) then 3 / 10 else 0)
                 + (if True then 1 / 10 else 0)
                 + (if 4 / 5 < (9 / 10 :: real) then 1 / 10 else 0))"
    by blast
  then have c1: "confidence ?d1 = min 1 (1 / 2 + 3 / 10 + 1 / 10 + 1 / 10)" by simp
  then have "confidence ?d1 = 1 \<and> confidence ?d1 \<noteq> 9 / 10" by simp
  with r1 c1 have one: "\<exists>d. route no_numbers_printed ticket_C [agent_A1] [team_T1] ?rules = Inr d
        \<and> reason d = ''Matched routing rule: vip''
        \<and> assignToTeam d = Some ''T1'' \<and> assignToUser d = Some ''A1''
        \<and> confidence d = min 1 (1 / 2 + 3 / 10 + 1 / 10 + 1 / 10)
        \<and> confidence d = 1 \<and> confidence d \<noteq> 9 / 10"
    by simp
  from final_confidence_is_heuristic [of _ no_numbers_printed ticket_A "[agent_A1]" "[team_T1]" ?rules]
    r2 pA xA
  have "confidence ?d2 =
          (if (\<exists>t. assignToTeam ?d2 = Some t \<and> t \<noteq> [])
              \<and> (\<exists>u. assignToUser ?d2 = Some u \<and> u \<noteq> []) then 4 / 5 else 1 / 2)"
    by blast
  then have "confidence ?d2 = 4 / 5 \<and> confidence ?d2 \<noteq> 9 / 10" by simp
  with r2 have two: "\<exists>d. route no_numbers_printed ticket_A [agent_A1] [team_T1] ?rules = Inr d
        \<and> reason d = ''Matched routing rule: vip''
        \<and> confidence d = 4 / 5 \<and> confidence d \<noteq> 9 / 10"
    by simp
  have s: "safe_ticket ticket_C" by (simp add: safe_ticket_def ticket_C_def)
  have t: "no_skills team_T0" by (simp add: no_skills_def team_T0_def)
  have m: "no_memberships agent_M1" by (simp add: no_memberships_def agent_M1_def)
  from s t m have "safe_ticket ticket_C \<and> list_all safe_rule [] \<and> list_all no_skills [team_T0]
      \<and> list_all no_memberships [agent_M1]" by simp
  with final_confidence_is_heuristic [of _ no_numbers_printed ticket_C "[agent_M1]" "[team_T0]" "[]"]
  obtain d where d: "route no_numbers_printed ticket_C [agent_M1] [team_T0] [] = Inr d" by blast
  have "route no_numbers_printed ticket_C [agent_M1] [team_T0] []
       = Inr \<lparr> assignToUser = None, assignToTeam = Some ''T0'', setPriority = None, addTags = [],
               reason = ''Routed to General team based on category'', confidence = 7 / 10 \<rparr>"
    by code_simp
  with d have "d = \<lparr> assignToUser = None, assignToTeam = Some ''T0'', setPriority = None,
               addTags = [], reason = ''Routed to General team based on category'',
               confidence = 7 / 10 \<rparr>" by simp
  then have u: "assignToUser d = None" by simp
  from final_confidence_is_heuristic [of _ no_numbers_printed ticket_C "[agent_M1]" "[team_T0]" "[]"]
    d pC xC
  have "confidence d =
          min 1 (1 / 2
                 + (if (\<exists>t. assignToTeam d = Some t \<and> t \<noteq> [])
                       \<and> (\<exists>u. assignToUser d = Some u \<and> u \<noteq> []) then 3 / 10 else 0)
                 + (if True then 1 / 10 else 0)
                 + (if 4 / 5 < (9 / 10 :: real) then 1 / 10 else 0))"
    by blast
  with u have "confidence d = min 1 (1 / 2 + 0 + 1 / 10 + 1 / 10) \<and> confidence d = 7 / 10"
    by simp
  with d have three: "\<exists>d. route no_numbers_printed ticket_C [agent_M1] [team_T0] [] = Inr d
        \<and> confidence d = min 1 (1 / 2 + 0 + 1 / 10 + 1 / 10) \<and> confidence d = 7 / 10"
    by blast
  from one two s t m three show ?thesis by blast
qed

subsection \<open>Rules\<close>

lemma matchesRule_empty: "matchesRule n2s ticket (Obj []) = Inr True"
  by (simp add: matchesRule_def)

lemma matchesRule_absent:
  "matchesRule n2s ticket Null = Inr False" "matchesRule n2s ticket Undefined = Inr False"
  by (simp_all add: matchesRule_def)

text \<open>
  Two lists that are permutations of each other and agree on the order of the rules of
  every single priority have the same stable sort.
\<close>

lemma sortedRules_permutation:
  assumes "mset rules' = mset rules"
    and "\<forall>p. filter (\<lambda>r. rule_priority r = p) rules' = filter (\<lambda>r. rule_priority r = p) rules"
  shows "sortedRules rules' = sortedRules rules"
proof -
  let ?f = "\<lambda>r. - rule_priority r"
  let ?ys = "sort_key ?f rules'"
  have m: "mset ?ys = mset rules" using assms(1) by simp
  have s: "sorted (map ?f ?ys)" by (rule sorted_sort_key)
  have f: "filter (\<lambda>x. ?f k = ?f x) ?ys = filter (\<lambda>x. ?f k = ?f x) rules" for k
  proof -
    have "filter (\<lambda>x. ?f x = ?f k) ?ys = filter (\<lambda>x. ?f x = ?f k) rules'"
      by (rule sort_key_stable)
    moreover have "(\<lambda>x. ?f x = ?f k) = (\<lambda>r. rule_priority r = rule_priority k)" by auto
    moreover have "(\<lambda>x. ?f k = ?f x) = (\<lambda>r. rule_priority r = rule_priority k)" by auto
    ultimately show ?thesis using assms(2) by simp
  qed
  have "sort_key ?f rules = ?ys"
    by (rule properties_for_sort_key [OF m _ s]) (rule f)
  then show ?thesis by (simp add: sortedRules_def)
qed

text \<open>
  Claim C4 as stated fails: two rules of equal priority that both match are evaluated in
  the order of the input list, so swapping them changes the matched rule.
\<close>

theorem rule_order_counterexample:
  "mset [rule_any ''second'' ''T2'' 1, rule_any ''first'' ''T1'' 1]
     = mset [rule_any ''first'' ''T1'' 1, rule_any ''second'' ''T2'' 1]
   \<and> applyRoutingRules no_numbers_printed ticket_A
        [rule_any ''first'' ''T1'' 1, rule_any ''second'' ''T2'' 1]
      = Inr (Some \<lparr> ruleName = ''first'', RuleMatch.assignToTeam = Some ''T1'',
                     RuleMatch.assignToUser = None, RuleMatch.setPriority = None,
                     RuleMatch.addTags = None \<rparr>)
   \<and> applyRoutingRules no_numbers_printed ticket_A
        [rule_any ''second'' ''T2'' 1, rule_any ''first'' ''T1'' 1]
      = Inr (Some \<lparr> ruleName = ''second'', RuleMatch.assignToTeam = Some ''T2'',
                     RuleMatch.assignToUser = None, RuleMatch.setPriority = None,
                     RuleMatch.addTags = None \<rparr>)"
  by (simp add: applyRoutingRules_def sortedRules_def rule_priority_def rule_any_def
      matchesRule_def)

text \<open>
  Claim C4, as the code has it. The matched rule is the first match of the stable sort by
  descending priority of the list as given, so the input order matters exactly among rules
  of equal priority. For every ticket, a permutation of the rules that keeps the rules of
  each priority in their relative order yields the same result of rule evaluation: the
  same matched rule with the same actions, or the same exception.
\<close>

theorem rule_evaluation_order_independent:
  assumes "mset rules' = mset rules"
    and "\<forall>p. filter (\<lambda>r. rule_priority r = p) rules' = filter (\<lambda>r. rule_priority r = p) rules"
  shows "applyRoutingRules n2s ticket rules' = applyRoutingRules n2s ticket rules
       \<and> applyRoutingRules n2s ticket rules
           = (if rules = [] then Inr None
              else first_match n2s ticket (sort_key (\<lambda>r. - rule_priority r) rules))"
proof -
  have "rules' = [] \<longleftrightarrow> rules = []" using assms(1) by (metis mset_zero_iff)
  then show ?thesis
    using sortedRules_permutation [OF assms]
    by (simp add: applyRoutingRules_def sortedRules_def)
qed

theorem rule_evaluation_order_independent_witness:
  "mset [rule_any ''low'' ''T2'' 1, rule_any ''high'' ''T1'' 2]
     = mset [rule_any ''high'' ''T1'' 2, rule_any ''low'' ''T2'' 1]
   \<and> applyRoutingRules no_numbers_printed ticket_A
        [rule_any ''low'' ''T2'' 1, rule_any ''high'' ''T1'' 2]
      = applyRoutingRules no_numbers_printed ticket_A
        [rule_any ''high'' ''T1'' 2, rule_any ''low'' ''T2'' 1]
   \<and> applyRoutingRules no_numbers_printed ticket_A
        [rule_any ''low'' ''T2'' 1, rule_any ''high'' ''T1'' 2]
      = Inr (Some \<lparr> ruleName = ''high'', RuleMatch.assignToTeam = Some ''T1'',
                     RuleMatch.assignToUser = None, RuleMatch.setPriority = None,
                     RuleMatch.addTags = None \<rparr>)"
proof -
  let ?a = "[rule_any ''high'' ''T1'' 2, rule_any ''low'' ''T2'' 1]"
  let ?b = "[rule_any ''low'' ''T2'' 1, rule_any ''high'' ''T1'' 2]"
  have m: "mset ?b = mset ?a" by simp
  have f: "\<forall>p. filter (\<lambda>r. rule_priority r = p) ?b = filter (\<lambda>r. rule_priority r = p) ?a"
    by (simp add: rule_priority_def rule_any_def)
  have v: "applyRoutingRules no_numbers_printed ticket_A ?b
      = Inr (Some \<lparr> ruleName = ''high'', RuleMatch.assignToTeam = Some ''T1'',
                     RuleMatch.assignToUser = None, RuleMatch.setPriority = None,
                     RuleMatch.addTags = None \<rparr>)"
    by (simp add: applyRoutingRules_def sortedRules_def rule_priority_def rule_any_def
      matchesRule_def)
  from rule_evaluation_order_independent [OF m f, of no_numbers_printed ticket_A] m v
  show ?thesis by simp
qed

text \<open>
  Claim C10. A rule whose condition set is the empty object matches every ticket; a rule
  whose condition set is \<^verbatim>\<open>null\<close> or absent matches none. Hence, when some rule of the
  list has empty conditions and a priority above that of every other rule, rule evaluation
  returns the actions of that rule for every ticket. The rule's active flag plays no part.
\<close>

theorem empty_conditions_capture:
  "matchesRule n2s ticket (Obj []) = Inr True
   \<and> matchesRule n2s ticket Null = Inr False
   \<and> matchesRule n2s ticket Undefined = Inr False
   \<and> (rule \<in> set rules \<and> conditions rule = Obj []
        \<and> (\<forall>other \<in> set rules. other \<noteq> rule \<longrightarrow> rule_priority other < rule_priority rule)
      \<longrightarrow> applyRoutingRules n2s ticket rules
            = Inr (Some \<lparr> ruleName = Rule.name rule,
                           RuleMatch.assignToTeam = assign_to_team rule,
                           RuleMatch.assignToUser = assign_to_user rule,
                           RuleMatch.setPriority = set_priority rule,
                           RuleMatch.addTags = add_tags rule \<rparr>))"
proof -
  have "applyRoutingRules n2s ticket rules
            = Inr (Some \<lparr> ruleName = Rule.name rule,
                           RuleMatch.assignToTeam = assign_to_team rule,
                           RuleMatch.assignToUser = assign_to_user rule,
                           RuleMatch.setPriority = set_priority rule,
                           RuleMatch.addTags = add_tags rule \<rparr>)"
    if mem: "rule \<in> set rules" and emp: "conditions rule = Obj []"
      and top: "\<forall>other \<in> set rules. other \<noteq> rule \<longrightarrow> rule_priority other < rule_priority rule"
  proof -
    let ?f = "\<lambda>r. - rule_priority r"
    from mem have ne: "rules \<noteq> []" by auto
    then obtain z zs where s: "sort_key ?f rules = z # zs" by (rule sort_key_Cons_ex)
    from hd_sort_key_min [OF ne, of ?f]
    have "hd (sort_key ?f rules) \<in> set rules"
      and "\<forall>y \<in> set rules. ?f (hd (sort_key ?f rules)) \<le> ?f y" by blast+
    then have z: "z \<in> set rules" and le: "\<forall>y \<in> set rules. ?f z \<le> ?f y"
      by (simp_all only: s list.sel)
    from le mem have "rule_priority rule \<le> rule_priority z" by auto
    with top z have "z = rule" by force
    then have "first_match n2s ticket (sort_key ?f rules)
            = Inr (Some \<lparr> ruleName = Rule.name rule,
                           RuleMatch.assignToTeam = assign_to_team rule,
                           RuleMatch.assignToUser = assign_to_user rule,
                           RuleMatch.setPriority = set_priority rule,
                           RuleMatch.addTags = add_tags rule \<rparr>)"
      by (simp only: s first_match.simps emp matchesRule_empty) simp
    with ne show ?thesis by (simp add: applyRoutingRules_def sortedRules_def)
  qed
  then show ?thesis using matchesRule_empty matchesRule_absent by blast
qed

theorem empty_conditions_capture_witness:
  "rule_any ''top'' ''T1'' 7 \<in> set [rule_any ''low'' ''T9'' 1, rule_any ''top'' ''T1'' 7]
   \<and> conditions (rule_any ''top'' ''T1'' 7) = Obj []
   \<and> rule_priority (rule_any ''low'' ''T9'' 1) < rule_priority (rule_any ''top'' ''T1'' 7)
   \<and> applyRoutingRules no_numbers_printed ticket_A
        [rule_any ''low'' ''T9'' 1, rule_any ''top'' ''T1'' 7]
      = Inr (Some \<lparr> ruleName = ''top'', RuleMatch.assignToTeam = Some ''T1'',
                     RuleMatch.assignToUser = None, RuleMatch.setPriority = None,
                     RuleMatch.addTags = None \<rparr>)"
proof -
  let ?top = "rule_any ''top'' ''T1'' 7"
  let ?rules = "[rule_any ''low'' ''T9'' 1, ?top]"
  have h: "?top \<in> set ?rules \<and> conditions ?top = Obj []
      \<and> (\<forall>other \<in> set ?rules. other \<noteq> ?top \<longrightarrow> rule_priority other < rule_priority ?top)"
    by (simp add: rule_any_def rule_priority_def)
  from empty_conditions_capture [of no_numbers_printed ticket_A ?top ?rules] h
  have "applyRoutingRules no_numbers_printed ticket_A ?rules
      = Inr (Some \<lparr> ruleName = Rule.name ?top,
                     RuleMatch.assignToTeam = assign_to_team ?top,
                     RuleMatch.assignToUser = assign_to_user ?top,
                     RuleMatch.setPriority = set_priority ?top,
                     RuleMatch.addTags = add_tags ?top \<rparr>)"
    by blast
  then have "applyRoutingRules no_numbers_printed ticket_A ?rules
      = Inr (Some \<lparr> ruleName = ''top'', RuleMatch.assignToTeam = Some ''T1'',
                     RuleMatch.assignToUser = None, RuleMatch.setPriority = None,
                     RuleMatch.addTags = None \<rparr>)"
    by (simp add: rule_any_def)
  moreover have "rule_priority (rule_any ''low'' ''T9'' 1) < rule_priority ?top"
    by (simp add: rule_any_def rule_priority_def)
  ultimately show ?thesis using h by blast
qed

subsection \<open>Selecting agents\<close>




text \<open>
  On an escalated ticket \<^verbatim>\<open>route\<close> returns no decision as soon as one agent of the list
  has memberships: the search for a senior agent throws.
\<close>

lemma route_escalation_throws:
  assumes "shouldEscalate n2s ticket \<noteq> Inr False"
    and "\<exists>agent \<in> set agents. team_members agent \<noteq> None"
  shows "route n2s ticket agents teams rules \<noteq> Inr d"
proof
  assume "route n2s ticket agents teams rules = Inr d"
  then obtain r3 r4 where r4: "handle_escalation n2s ticket agents r3 = Inr r4"
    by (rule route_Inr)
  then obtain b where b: "shouldEscalate n2s ticket = Inr b"
    by (cases "shouldEscalate n2s ticket") (simp_all add: handle_escalation_def)
  with assms(1) have "shouldEscalate n2s ticket = Inr True" by (cases b) simp_all
  then have "handle_escalation n2s ticket agents r3 = Inl ReferenceError"
    by (simp add: handle_escalation_def Let_def findSeniorAgent_with_memberships [OF assms(2)])
  with r4 show False by simp
qed




text \<open>
  Claim C6 fails on the code as written. The filter for team leads in \<^verbatim>\<open>findSeniorAgent\<close>
  passes \<^verbatim>\<open>tm = tm.is_team_lead && (...)\<close> to \<^verbatim>\<open>some\<close>, an assignment that reads the
  undeclared name \<^verbatim>\<open>tm\<close>, where the arrow function \<^verbatim>\<open>tm => ...\<close> was meant. The argument is
  evaluated before \<^verbatim>\<open>some\<close> is called, so the search throws a \<^verbatim>\<open>ReferenceError\<close> at the first
  agent that has a \<^verbatim>\<open>team_members\<close> array, and \<^verbatim>\<open>route\<close> with it: on the escalated ticket of
  scenario B with the lead of the billing team in the pool there is no decision and no
  reassignment, also when a manager stands before the lead in the list. Only a pool in
  which no agent has memberships reaches the fallback to managers.
\<close>

theorem senior_agent_search_throws:
  "team_members agent_L1 = Some [\<lparr> team_id = ''T1'', is_team_lead = True \<rparr>]
   \<and> shouldEscalate no_numbers_printed ticket_B = Inr True
   \<and> findSeniorAgent [agent_L1] None = Inl ReferenceError
   \<and> findSeniorAgent [agent_L1] (Some ''T1'') = Inl ReferenceError
   \<and> route no_numbers_printed ticket_B [agent_L1] [] [] = Inl ReferenceError
   \<and> route no_numbers_printed ticket_B [agent_M1, agent_L1] [] [] = Inl ReferenceError
   \<and> route no_numbers_printed ticket_B [agent_M1] [] []
       = Inr \<lparr> assignToUser = Some ''M1'', assignToTeam = None, setPriority = Some ''urgent'',
               addTags = [''escalated''], reason = '' (Escalated to senior agent)'',
               confidence = 1 / 2 \<rparr>"
  by code_simp

section \<open>Properties of the queue worker\<close>

lemma try_body_keeps:
  assumes "try_body fx job w0 = (thrown, w1)"
  shows "retry_queue w1 = retry_queue w0" and "processingCount w1 = processingCount w0"
  using assms
  by (auto simp add: try_body_def Let_def split: sum.splits option.splits if_splits)

text \<open>
  An error is retryable exactly when one of the four codes is its \<^verbatim>\<open>code\<close> or occurs in
  its \<^verbatim>\<open>message\<close>.
\<close>

lemma isRetryableError_iff:
  "isRetryableError error \<longleftrightarrow>
     (\<exists>c \<in> {''ECONNRESET'', ''ETIMEDOUT'', ''ECONNREFUSED'', ''RATE_LIMITED''}.
        code error = Some c \<or> (\<exists>pre post. message error = Some (pre @ c @ post)))"
proof -
  have "(case message error of None \<Rightarrow> False | Some m \<Rightarrow> str_includes m c)
        = (\<exists>pre post. message error = Some (pre @ c @ post))" for c
    by (cases "message error") (auto simp add: str_includes_iff)
  then show ?thesis
    by (simp add: isRetryableError_def retryableCodes_def) blast
qed

text \<open>
  Claim C8 as stated fails when the push onto the retry queue is itself refused: the
  push onto the routing queue fails with a retryable error, the \<^verbatim>\<open>catch\<close> block awaits the
  push onto the retry queue, that push rejects, and the rejection leaves \<^verbatim>\<open>processJob\<close>.
  The job is on no queue and an error has reached the loop.
\<close>

theorem retry_push_refused_counterexample:
  "try_body queue_server_down job_1 (idle_worker \<lparr> processingCount := 1 \<rparr>)
     = (Some connection_refused,
        idle_worker \<lparr> processingCount := 1,
          logged := [LogInfo ''Processing classification job'' ''t-1''],
          classification_rows := [(''t-1'', fallback \<lparr> MODEL = ''gpt-4'', provider = ''openai'' \<rparr> 30)],
          ticket_updates := [(''t-1'', fallback \<lparr> MODEL = ''gpt-4'', provider = ''openai'' \<rparr> 30)] \<rparr>)
   \<and> isRetryableError connection_refused
   \<and> fst (processJob queue_server_down job_1 idle_worker) = Some connection_refused
   \<and> retry_queue (snd (processJob queue_server_down job_1 idle_worker)) = []"
  by (simp add: processJob_def try_body_def catch_block_def queue_server_down_def job_1_def
      idle_worker_def connection_refused_def isRetryableError_def retryableCodes_def)

text \<open>
  Claim C8, as the code has it. Let the \<^verbatim>\<open>try\<close> block of \<^verbatim>\<open>processJob\<close> end with an error.
  The error is logged with the ticket id, and the counter is back at its value on entry.
  If the error is retryable (one of ECONNRESET, ETIMEDOUT, ECONNREFUSED and RATE_LIMITED
  is its code or occurs in its message) the job is pushed onto the retry queue once; when
  that push succeeds no error reaches the loop, and when that push is refused the job is
  not enqueued and the refusal reaches the loop. If the error is not retryable the job is
  dropped, the retry queue is as before and no error reaches the loop.
\<close>

theorem retryable_error_requeued:
  assumes "try_body fx job (w \<lparr> processingCount := processingCount w + 1 \<rparr>) = (Some error, w1)"
  shows "LogError ''Classification job failed'' (ticketId job) (message error)
           \<in> set (logged (snd (processJob fx job w)))
       \<and> processingCount (snd (processJob fx job w)) = processingCount w
       \<and> (isRetryableError error \<longleftrightarrow>
            (\<exists>c \<in> {''ECONNRESET'', ''ETIMEDOUT'', ''ECONNREFUSED'', ''RATE_LIMITED''}.
               code error = Some c \<or> (\<exists>pre post. message error = Some (pre @ c @ post))))
       \<and> (isRetryableError error \<and> retry_push_rejects fx = None \<longrightarrow>
            fst (processJob fx job w) = None
            \<and> retry_queue (snd (processJob fx job w)) = job # retry_queue w)
       \<and> (isRetryableError error \<and> retry_push_rejects fx \<noteq> None \<longrightarrow>
            fst (processJob fx job w) = retry_push_rejects fx
            \<and> retry_queue (snd (processJob fx job w)) = retry_queue w)
       \<and> (\<not> isRetryableError error \<longrightarrow>
            fst (processJob fx job w) = None
            \<and> retry_queue (snd (processJob fx job w)) = retry_queue w)"
proof -
  from try_body_keeps [OF assms]
  have k: "retry_queue w1 = retry_queue w" "processingCount w1 = processingCount w + 1"
    by simp_all
  have p: "processJob fx job w =
      (fst (catch_block fx job error w1),
       (snd (catch_block fx job error w1))
         \<lparr> processingCount := processingCount (snd (catch_block fx job error w1)) - 1 \<rparr>)"
    using assms by (simp add: processJob_def Let_def split_beta)
  show ?thesis
    unfolding p isRetryableError_iff [symmetric]
    using k by (auto simp add: catch_block_def Let_def split: option.splits)
qed

theorem retryable_error_requeued_witness:
  "try_body routing_push_refused job_1 (idle_worker \<lparr> processingCount := processingCount idle_worker + 1 \<rparr>)
     = (Some connection_refused,
        idle_worker \<lparr> processingCount := 1,
          logged := [LogInfo ''Processing classification job'' ''t-1''],
          classification_rows := [(''t-1'', fallback \<lparr> MODEL = ''gpt-4'', provider = ''openai'' \<rparr> 30)],
          ticket_updates := [(''t-1'', fallback \<lparr> MODEL = ''gpt-4'', provider = ''openai'' \<rparr> 30)] \<rparr>)
   \<and> isRetryableError connection_refused
   \<and> retry_push_rejects routing_push_refused = None
   \<and> fst (processJob routing_push_refused job_1 idle_worker) = None
   \<and> retry_queue (snd (processJob routing_push_refused job_1 idle_worker)) = [job_1]"
proof -
  let ?w1 = "idle_worker \<lparr> processingCount := 1,
          logged := [LogInfo ''Processing classification job'' ''t-1''],
          classification_rows := [(''t-1'', fallback \<lparr> MODEL = ''gpt-4'', provider = ''openai'' \<rparr> 30)],
          ticket_updates := [(''t-1'', fallback \<lparr> MODEL = ''gpt-4'', provider = ''openai'' \<rparr> 30)] \<rparr>"
  have t: "try_body routing_push_refused job_1
             (idle_worker \<lparr> processingCount := processingCount idle_worker + 1 \<rparr>)
           = (Some connection_refused, ?w1)"
    by (simp add: try_body_def routing_push_refused_def job_1_def idle_worker_def)
  have r: "isRetryableError connection_refused"
    by (simp add: isRetryableError_def retryableCodes_def connection_refused_def)
  have n: "retry_push_rejects routing_push_refused = None"
    by (simp add: routing_push_refused_def)
  have q: "retry_queue idle_worker = []" by (simp add: idle_worker_def)
  from retryable_error_requeued [OF t] r n
  have "fst (processJob routing_push_refused job_1 idle_worker) = None
      \<and> retry_queue (snd (processJob routing_push_refused job_1 idle_worker))
          = job_1 # retry_queue idle_worker"
    by blast
  with t r n q show ?thesis by simp
qed

end
